theory Spec2Isabelle
  imports Complex_Main "HOL-Library.Word"
begin

section \<open>JavaScript numbers and typed arrays\<close>

text \<open>
  The geometry code of xeogl (src/geometry/geometry.js) computes with JavaScript numbers.
  They are modelled as reals extended with the two infinities and NaN, so that a
  division by zero, \<open>0 * Infinity\<close> and a comparison with NaN behave as they do in the
  source. Arithmetic on doubles is exact in the model: the rounding and the overflow of a
  double operation and the sign of zero are not modelled. A store into a \<open>Float32Array\<close>
  does round, to the nearest 32-bit float (\<open>fround\<close> below).
\<close>

datatype jsnum = Num real | PosInf | NegInf | NaN

fun js_neg :: "jsnum \<Rightarrow> jsnum" where
  "js_neg (Num a) = Num (- a)"
| "js_neg PosInf = NegInf"
| "js_neg NegInf = PosInf"
| "js_neg NaN = NaN"

fun js_add :: "jsnum \<Rightarrow> jsnum \<Rightarrow> jsnum" where
  "js_add (Num a) (Num b) = Num (a + b)"
| "js_add NaN _ = NaN"
| "js_add _ NaN = NaN"
| "js_add PosInf NegInf = NaN"
| "js_add NegInf PosInf = NaN"
| "js_add PosInf _ = PosInf"
| "js_add NegInf _ = NegInf"
| "js_add _ PosInf = PosInf"
| "js_add _ NegInf = NegInf"

definition js_sub :: "jsnum \<Rightarrow> jsnum \<Rightarrow> jsnum" where
  "js_sub a b = js_add a (js_neg b)"

fun js_mul :: "jsnum \<Rightarrow> jsnum \<Rightarrow> jsnum" where
  "js_mul (Num a) (Num b) = Num (a * b)"
| "js_mul NaN _ = NaN"
| "js_mul _ NaN = NaN"
| "js_mul PosInf (Num b) = (if b = 0 then NaN else if 0 < b then PosInf else NegInf)"
| "js_mul NegInf (Num b) = (if b = 0 then NaN else if 0 < b then NegInf else PosInf)"
| "js_mul (Num a) PosInf = (if a = 0 then NaN else if 0 < a then PosInf else NegInf)"
| "js_mul (Num a) NegInf = (if a = 0 then NaN else if 0 < a then NegInf else PosInf)"
| "js_mul PosInf PosInf = PosInf"
| "js_mul PosInf NegInf = NegInf"
| "js_mul NegInf PosInf = NegInf"
| "js_mul NegInf NegInf = PosInf"

fun js_div :: "jsnum \<Rightarrow> jsnum \<Rightarrow> jsnum" where
  "js_div (Num a) (Num b) =
     (if b = 0 then (if a = 0 then NaN else if 0 < a then PosInf else NegInf)
      else Num (a / b))"
| "js_div NaN _ = NaN"
| "js_div _ NaN = NaN"
| "js_div (Num a) _ = Num 0"
| "js_div PosInf (Num b) = (if 0 \<le> b then PosInf else NegInf)"
| "js_div NegInf (Num b) = (if 0 \<le> b then NegInf else PosInf)"
| "js_div _ _ = NaN"

fun js_abs :: "jsnum \<Rightarrow> jsnum" where
  "js_abs (Num a) = Num \<bar>a\<bar>"
| "js_abs NaN = NaN"
| "js_abs _ = PosInf"

fun js_floor :: "jsnum \<Rightarrow> jsnum" where
  "js_floor (Num a) = Num (of_int \<lfloor>a\<rfloor>)"
| "js_floor x = x"

fun js_ceil :: "jsnum \<Rightarrow> jsnum" where
  "js_ceil (Num a) = Num (of_int \<lceil>a\<rceil>)"
| "js_ceil x = x"

fun js_sqrt :: "jsnum \<Rightarrow> jsnum" where
  "js_sqrt (Num a) = (if a < 0 then NaN else Num (sqrt a))"
| "js_sqrt PosInf = PosInf"
| "js_sqrt _ = NaN"

fun js_cos :: "jsnum \<Rightarrow> jsnum" where
  "js_cos (Num a) = Num (cos a)"
| "js_cos _ = NaN"

fun js_lt :: "jsnum \<Rightarrow> jsnum \<Rightarrow> bool" where
  "js_lt (Num a) (Num b) = (a < b)"
| "js_lt NaN _ = False"
| "js_lt _ NaN = False"
| "js_lt _ NegInf = False"
| "js_lt PosInf _ = False"
| "js_lt NegInf _ = True"
| "js_lt _ PosInf = True"

definition js_gt :: "jsnum \<Rightarrow> jsnum \<Rightarrow> bool" where
  "js_gt a b = js_lt b a"

definition js_ge :: "jsnum \<Rightarrow> jsnum \<Rightarrow> bool" where
  "js_ge a b = (a \<noteq> NaN \<and> b \<noteq> NaN \<and> \<not> js_lt a b)"

text \<open>\<open>Math.min\<close> and \<open>Math.max\<close> return NaN as soon as one argument is NaN.\<close>

definition js_min :: "jsnum \<Rightarrow> jsnum \<Rightarrow> jsnum" where
  "js_min a b = (if a = NaN \<or> b = NaN then NaN else if js_lt b a then b else a)"

definition js_max :: "jsnum \<Rightarrow> jsnum \<Rightarrow> jsnum" where
  "js_max a b = (if a = NaN \<or> b = NaN then NaN else if js_lt a b then b else a)"

text \<open>Truthiness of a number: \<open>0\<close> and NaN are falsy.\<close>

fun js_truthy :: "jsnum \<Rightarrow> bool" where
  "js_truthy (Num a) = (a \<noteq> 0)"
| "js_truthy NaN = False"
| "js_truthy _ = True"

text \<open>
  Storing a number into an integer typed array truncates it towards zero and wraps it
  modulo the element width; NaN and the infinities are stored as 0.
\<close>

definition js_trunc :: "real \<Rightarrow> int" where
  "js_trunc r = (if 0 \<le> r then \<lfloor>r\<rfloor> else \<lceil>r\<rceil>)"

fun ToInteger :: "jsnum \<Rightarrow> int" where
  "ToInteger (Num r) = js_trunc r"
| "ToInteger _ = 0"

definition ToUint16 :: "jsnum \<Rightarrow> 16 word" where
  "ToUint16 x = word_of_int (ToInteger x)"

definition ToUint32 :: "jsnum \<Rightarrow> 32 word" where
  "ToUint32 x = word_of_int (ToInteger x)"

definition ToInt8 :: "jsnum \<Rightarrow> 8 word" where
  "ToInt8 x = word_of_int (ToInteger x)"

text \<open>
  Storing a number into a \<open>Float32Array\<close> rounds it to the nearest 32-bit float, ties to
  the even significand (\<open>Math.fround\<close>). \<open>f32_exponent a\<close> is the binary exponent of the
  magnitude \<open>a\<close>, kept between \<open>-126\<close> (where the subnormal numbers start) and \<open>127\<close>; it
  is found by counting down from 127. The spacing of the floats around \<open>a\<close> is
  \<open>2 ^ (exponent - 23)\<close>, and a result of magnitude \<open>2 ^ 128\<close> or more is an infinity.
\<close>

fun f32_exponent_from :: "nat \<Rightarrow> real \<Rightarrow> int" where
  "f32_exponent_from 0 a = - 126"
| "f32_exponent_from (Suc k) a =
     (if 2 powi (int k - 125) \<le> a then int k - 125 else f32_exponent_from k a)"

definition f32_exponent :: "real \<Rightarrow> int" where
  "f32_exponent a = f32_exponent_from 253 a"

definition round_half_even :: "real \<Rightarrow> int" where
  "round_half_even q =
     (if q - of_int \<lfloor>q\<rfloor> < 1 / 2 then \<lfloor>q\<rfloor>
      else if 1 / 2 < q - of_int \<lfloor>q\<rfloor> then \<lfloor>q\<rfloor> + 1
      else if even \<lfloor>q\<rfloor> then \<lfloor>q\<rfloor> else \<lfloor>q\<rfloor> + 1)"

definition fround :: "real \<Rightarrow> jsnum" where
  "fround x =
     (let ulp = 2 powi (f32_exponent \<bar>x\<bar> - 23);
          r = of_int (round_half_even (\<bar>x\<bar> / ulp)) * ulp
      in if 2 ^ 128 \<le> r then (if 0 < x then PosInf else NegInf)
         else Num (if x < 0 then - r else r))"

fun ToFloat32 :: "jsnum \<Rightarrow> jsnum" where
  "ToFloat32 (Num x) = fround x"
| "ToFloat32 x = x"

text \<open>
  The arrays the code receives and builds: a plain \<open>Array\<close> of numbers or one of the typed
  arrays. An \<open>Int8Array\<close> element is read as a signed byte, the others as unsigned.
\<close>

datatype jsarray =
    Array "jsnum list"
  | Float32Array "jsnum list"
  | Uint16Array "16 word list"
  | Uint32Array "32 word list"
  | Int8Array "8 word list"

fun elems :: "jsarray \<Rightarrow> jsnum list" where
  "elems (Array xs) = xs"
| "elems (Float32Array xs) = xs"
| "elems (Uint16Array ws) = map (\<lambda>w. Num (real (unat w))) ws"
| "elems (Uint32Array ws) = map (\<lambda>w. Num (real (unat w))) ws"
| "elems (Int8Array ws) = map (\<lambda>w. Num (real_of_int (sint w))) ws"

definition array_length :: "jsarray \<Rightarrow> nat" where
  "array_length a = length (elems a)"

definition new_Float32Array :: "jsnum list \<Rightarrow> jsarray" where
  "new_Float32Array xs = Float32Array (map ToFloat32 xs)"

definition new_Uint16Array :: "jsnum list \<Rightarrow> jsarray" where
  "new_Uint16Array xs = Uint16Array (map ToUint16 xs)"

definition new_Uint32Array :: "jsnum list \<Rightarrow> jsarray" where
  "new_Uint32Array xs = Uint32Array (map ToUint32 xs)"

definition new_Int8Array :: "jsnum list \<Rightarrow> jsarray" where
  "new_Int8Array xs = Int8Array (map ToInt8 xs)"

text \<open>
  Reading past the end of an array gives \<open>undefined\<close>, which every arithmetic operation
  and \<open>Math.min\<close>/\<open>Math.max\<close> turn into NaN.
\<close>

definition js_get :: "jsnum list \<Rightarrow> nat \<Rightarrow> jsnum" where
  "js_get xs i = (if i < length xs then xs ! i else NaN)"

section \<open>Objects used as dictionaries\<close>

text \<open>
  \<open>geometries\<close> is a plain object keyed by geometry id and enumerated with \<open>for (id in
  geometries)\<close>. JavaScript enumerates own properties with the array-index keys first,
  in ascending numeric order, and then the other keys in the order of their creation;
  assigning to an existing key keeps its place. The object is an association list kept
  in enumeration order.
\<close>

datatype key = Index nat | Name string

fun key_precedes :: "key \<Rightarrow> key \<Rightarrow> bool" where
  "key_precedes (Index n) (Index m) = (n < m)"
| "key_precedes (Index n) (Name s) = True"
| "key_precedes (Name s) k = False"

fun obj_insert :: "(key \<times> 'v) list \<Rightarrow> key \<Rightarrow> 'v \<Rightarrow> (key \<times> 'v) list" where
  "obj_insert [] k v = [(k, v)]"
| "obj_insert ((k', v') # kvs) k v =
     (if key_precedes k k' then (k, v) # (k', v') # kvs else (k', v') # obj_insert kvs k v)"

definition obj_get :: "(key \<times> 'v) list \<Rightarrow> key \<Rightarrow> 'v option" where
  "obj_get kvs k = map_of kvs k"

definition obj_put :: "(key \<times> 'v) list \<Rightarrow> key \<Rightarrow> 'v \<Rightarrow> (key \<times> 'v) list" where
  "obj_put kvs k v =
     (if obj_get kvs k = None then obj_insert kvs k v
      else map (\<lambda>(k', v'). if k' = k then (k', v) else (k', v')) kvs)"


section \<open>Geometry state and the combined vertex buffers of a scene\<close>

text \<open>
  The state object of a Geometry (\<open>xeogl.renderer.Geometry\<close>), as \<open>_init\<close> fills it.
  A WebGL buffer (\<open>xeogl.renderer.ArrayBuffer\<close>) is modelled by the array it holds.
  The memory statistics and the WebGL context are not modelled.
\<close>

datatype gl_primitive = POINTS | LINES | LINE_LOOP | LINE_STRIP | TRIANGLES | TRIANGLE_STRIP | TRIANGLE_FAN

record geometry =
  geom_id :: key
  combined :: bool
  quantized :: bool
  autoVertexNormals :: bool
  primitive :: "gl_primitive option"
  primitiveName :: "string option"
  positions :: "jsarray option"
  normals :: "jsarray option"
  colors :: "jsarray option"
  uv :: "jsarray option"
  indices :: "jsarray option"
  positionsDecodeMatrix :: "jsnum list option"
  uvDecodeMatrix :: "jsnum list option"
  positionsBuf :: "jsarray option"
  normalsBuf :: "jsarray option"
  colorsBuf :: "jsarray option"
  uvBuf :: "jsarray option"
  indicesBuf :: "jsarray option"
  indicesBufCombined :: "jsarray option"
  hash :: string

text \<open>
  \<open>xeogl.renderer.VertexBufs\<close>: the buffers of one chunk. The fields carry the prefix
  \<open>vb_\<close> because the geometry state has fields of the same names. The shared
  \<open>nullVertexBufs\<close> is built from an empty configuration.
\<close>

record vertex_bufs =
  vb_positionsBuf :: "jsarray option"
  vb_normalsBuf :: "jsarray option"
  vb_uvBuf :: "jsarray option"
  vb_colorsBuf :: "jsarray option"
  vb_quantized :: "bool option"


datatype message = IgnoringGeometry key | OutOfRange nat | ErrorMsg string

datatype js_error = TypeError

text \<open>
  The closure state of one \<open>SceneVertexBufs\<close>. The accumulation arrays \<open>positions\<close>,
  \<open>normals\<close>, \<open>colors\<close> and \<open>uv\<close> carry the prefix \<open>svb_\<close>. A \<open>VertexBufs\<close> object is
  shared by reference between \<open>vertexBufs\<close>, \<open>geometryVertexBufs\<close> and \<open>createBufs\<close>,
  which fills it in after geometries already point to it: the objects live in
  \<open>vb_heap\<close> and are referred to by their position there. \<open>svb_log\<close> collects what is
  passed to \<open>scene.warn\<close> and \<open>console.error\<close>. The pool keeps each registered geometry
  state in \<open>geometries\<close>; \<open>build\<close> writes \<open>indicesBufCombined\<close> there.
\<close>

record scene_vertex_bufs =
  hasPositions :: bool
  hasNormals :: bool
  hasColors :: bool
  hasUVs :: bool
  svb_quantized :: bool
  geometries :: "(key \<times> geometry) list"
  geometryIndicesOffsets :: "key \<rightharpoonup> real"
  newGeometries :: "geometry list"
  geometryVertexBufs :: "key \<rightharpoonup> nat"
  needRebuild :: bool
  needAppend :: bool
  svb_positions :: "jsnum list"
  svb_normals :: "jsnum list"
  svb_colors :: "jsnum list"
  svb_uv :: "jsnum list"
  vertexBufs :: "nat option"
  vb_heap :: "vertex_bufs list"
  svb_log :: "message list"

definition SceneVertexBufs :: "bool \<Rightarrow> bool \<Rightarrow> bool \<Rightarrow> bool \<Rightarrow> bool \<Rightarrow> scene_vertex_bufs" where
  "SceneVertexBufs hasP hasN hasC hasU q =
     \<lparr>hasPositions = hasP, hasNormals = hasN, hasColors = hasC, hasUVs = hasU,
      svb_quantized = q, geometries = [], geometryIndicesOffsets = Map.empty,
      newGeometries = [], geometryVertexBufs = Map.empty, needRebuild = False,
      needAppend = False, svb_positions = [], svb_normals = [], svb_colors = [],
      svb_uv = [], vertexBufs = None, vb_heap = [], svb_log = []\<rparr>"

text \<open>
  \<open>CHUNK_LEN\<close>, for a platform with (\<open>True\<close>) or without (\<open>False\<close>) the extension
  \<open>OES_element_index_uint\<close>; \<open>Number.MAX_SAFE_INTEGER\<close> is \<open>2^53 - 1\<close>.
\<close>

definition CHUNK_LEN :: "bool \<Rightarrow> real" where
  "CHUNK_LEN bigIndicesSupported =
     (if bigIndicesSupported then 9007199254740991 / 6 else 64000 * 4)"

definition addGeometry :: "scene_vertex_bufs \<Rightarrow> geometry \<Rightarrow> scene_vertex_bufs" where
  "addGeometry p g =
     (if positions g = None \<or> indices g = None
      then p\<lparr>svb_log := svb_log p @ [IgnoringGeometry (geom_id g)]\<rparr>
      else p\<lparr>geometries := obj_put (geometries p) (geom_id g) g,
             geometryIndicesOffsets := (geometryIndicesOffsets p)(geom_id g \<mapsto> 0),
             newGeometries := newGeometries p @ [g],
             needAppend := True\<rparr>)"


definition createBufs :: "nat \<Rightarrow> scene_vertex_bufs \<Rightarrow> scene_vertex_bufs" where
  "createBufs r p0 =
     (let p1 = (if hasPositions p0
                then p0\<lparr>vb_heap := (vb_heap p0)[r := (vb_heap p0 ! r)\<lparr>vb_positionsBuf :=
                            Some (if svb_quantized p0 then new_Uint16Array (svb_positions p0)
                                  else new_Float32Array (svb_positions p0))\<rparr>],
                        svb_positions := []\<rparr>
                else p0);
          p2 = (if hasNormals p1
                then p1\<lparr>vb_heap := (vb_heap p1)[r := (vb_heap p1 ! r)\<lparr>vb_normalsBuf :=
                            Some (if svb_quantized p1 then new_Int8Array (svb_normals p1)
                                  else new_Float32Array (svb_normals p1))\<rparr>],
                        svb_normals := []\<rparr>
                else p1);
          p3 = (if hasColors p2
                then p2\<lparr>vb_heap := (vb_heap p2)[r := (vb_heap p2 ! r)\<lparr>vb_colorsBuf :=
                            Some (new_Float32Array (svb_colors p2))\<rparr>],
                        svb_colors := []\<rparr>
                else p2)
      in (if hasUVs p3
          then p3\<lparr>vb_heap := (vb_heap p3)[r := (vb_heap p3 ! r)\<lparr>vb_uvBuf :=
                      Some (if svb_quantized p3 then new_Uint16Array (svb_uv p3)
                            else new_Float32Array (svb_uv p3))\<rparr>],
                  svb_uv := []\<rparr>
          else p3))"

text \<open>
  One pass of \<open>if (hasX) for (...) xs.push(geometry.x[i])\<close>: reading \<open>length\<close> of a
  missing attribute throws.
\<close>

definition push_attr :: "bool \<Rightarrow> jsarray option \<Rightarrow> jsnum list \<Rightarrow> js_error + jsnum list" where
  "push_attr has attr acc =
     (if has then (case attr of None \<Rightarrow> Inl TypeError | Some a \<Rightarrow> Inr (acc @ elems a))
      else Inr acc)"

text \<open>
  The copy of the indices with the offset added. Each sum is stored back into the typed
  array, which truncates and wraps it, and the stored value is what the range check
  reads. The results are the adjusted array and the values reported as out of range.
\<close>

definition add_offset16 :: "real \<Rightarrow> 16 word \<Rightarrow> 16 word" where
  "add_offset16 off w = ToUint16 (js_add (Num (real (unat w))) (Num off))"

definition add_offset32 :: "real \<Rightarrow> 32 word \<Rightarrow> 32 word" where
  "add_offset32 off w = ToUint32 (js_add (Num (real (unat w))) (Num off))"

definition adjust_indices :: "bool \<Rightarrow> real \<Rightarrow> jsarray option \<Rightarrow> jsarray option \<times> message list" where
  "adjust_indices big indicesOffset gi =
     (if indicesOffset \<noteq> 0 then
        (let src = (case gi of None \<Rightarrow> [] | Some a \<Rightarrow> elems a) in
         if big then
           (let ws = map (add_offset32 indicesOffset) (map ToUint32 src)
            in (Some (Uint32Array ws),
                map (\<lambda>w. OutOfRange (unat w)) (filter (\<lambda>w. real (unat w) > CHUNK_LEN big / 3) ws)))
         else
           (let ws = map (add_offset16 indicesOffset) (map ToUint16 src)
            in (Some (Uint16Array ws),
                map (\<lambda>w. OutOfRange (unat w)) (filter (\<lambda>w. real (unat w) > CHUNK_LEN big / 3) ws))))
      else (gi, []))"

text \<open>
  The body of the loop of \<open>build\<close> for one property \<open>id\<close> of \<open>geometries\<close>; the second
  component of the state is the local \<open>indicesOffset\<close>.
\<close>

definition new_chunk :: "scene_vertex_bufs \<Rightarrow> scene_vertex_bufs" where
  "new_chunk p =
     (let p1 = (case vertexBufs p of None \<Rightarrow> p | Some r \<Rightarrow> createBufs r p)
      in p1\<lparr>vertexBufs := Some (length (vb_heap p1)),
             vb_heap := vb_heap p1 @ [\<lparr>vb_positionsBuf = None, vb_normalsBuf = None,
                vb_uvBuf = None, vb_colorsBuf = None, vb_quantized = Some (svb_quantized p1)\<rparr>]\<rparr>)"

definition build_step ::
  "bool \<Rightarrow> scene_vertex_bufs \<times> real \<Rightarrow> key \<times> geometry \<Rightarrow> js_error + scene_vertex_bufs \<times> real" where
  "build_step big st kg =
     (case st of (p0, indicesOffset0) \<Rightarrow> case kg of (id0, g) \<Rightarrow>
      (case positions g of None \<Rightarrow> Inl TypeError | Some gpos \<Rightarrow>
       (let needNew = (vertexBufs p0 = None \<or>
              real (length (svb_positions p0) + array_length gpos) > CHUNK_LEN big);
            p1 = (if needNew then new_chunk p0 else p0);
            indicesOffset = (if needNew then 0 else indicesOffset0);
            p2 = p1\<lparr>geometryVertexBufs := (geometryVertexBufs p1)(id0 := vertexBufs p1)\<rparr>
        in case push_attr (hasPositions p2) (positions g) (svb_positions p2) of Inl e \<Rightarrow> Inl e
           | Inr ps \<Rightarrow>
          (case push_attr (hasNormals p2) (normals g) (svb_normals p2) of Inl e \<Rightarrow> Inl e
           | Inr ns \<Rightarrow>
          (case push_attr (hasColors p2) (colors g) (svb_colors p2) of Inl e \<Rightarrow> Inl e
           | Inr cs \<Rightarrow>
          (case push_attr (hasUVs p2) (uv g) (svb_uv p2) of Inl e \<Rightarrow> Inl e
           | Inr us \<Rightarrow>
          (case adjust_indices big indicesOffset (indices g) of
             (None, msgs) \<Rightarrow> Inl TypeError
           | (Some ixs, msgs) \<Rightarrow>
               Inr (p2\<lparr>svb_positions := ps, svb_normals := ns, svb_colors := cs, svb_uv := us,
                       geometryIndicesOffsets := (geometryIndicesOffsets p2)(id0 \<mapsto> indicesOffset),
                       geometries := obj_put (geometries p2) id0 (g\<lparr>indicesBufCombined := Some ixs\<rparr>),
                       svb_log := svb_log p2 @ msgs\<rparr>,
                    indicesOffset + real (array_length gpos) / 3))))))))"

fun build_loop ::
  "bool \<Rightarrow> (key \<times> geometry) list \<Rightarrow> scene_vertex_bufs \<times> real \<Rightarrow> js_error + scene_vertex_bufs \<times> real" where
  "build_loop big [] st = Inr st"
| "build_loop big (kg # kgs) st =
     (case build_step big st kg of Inl e \<Rightarrow> Inl e | Inr st' \<Rightarrow> build_loop big kgs st')"

definition build :: "bool \<Rightarrow> scene_vertex_bufs \<Rightarrow> js_error + scene_vertex_bufs" where
  "build big p =
     (let p0 = p\<lparr>geometryVertexBufs := Map.empty, vertexBufs := None\<rparr>
      in case build_loop big (geometries p0) (p0, 0) of Inl e \<Rightarrow> Inl e
         | Inr (p1, indicesOffset) \<Rightarrow>
             Inr ((case vertexBufs p1 of None \<Rightarrow> p1 | Some r \<Rightarrow> createBufs r p1)
                    \<lparr>needRebuild := False, needAppend := False\<rparr>))"

text \<open>
  The two queries. The result \<open>None\<close> is JavaScript's \<open>undefined\<close>; the second component
  is the pool after the call.
\<close>

definition getIndicesOffset ::
  "bool \<Rightarrow> scene_vertex_bufs \<Rightarrow> geometry \<Rightarrow> js_error + real option \<times> scene_vertex_bufs" where
  "getIndicesOffset big p g =
     (case (if needRebuild p \<or> needAppend p then build big p else Inr p) of Inl e \<Rightarrow> Inl e
      | Inr p' \<Rightarrow> Inr (geometryIndicesOffsets p' (geom_id g), p'))"


section \<open>Quantization of positions and UVs\<close>

text \<open>\<open>Number.MAX_VALUE\<close>, the largest finite double.\<close>

definition MAX_VALUE :: real where
  "MAX_VALUE = 2 ^ 1024 - 2 ^ 971"

text \<open>
  \<open>getBounds(array, stride)\<close>: the pair \<open>(min, max)\<close>. Both are \<open>Float32Array\<close>s, so each
  assignment to an element rounds the value stored (the initial \<open>Number.MAX_VALUE\<close> to
  an infinity). The outer loop is \<open>getBounds_loop\<close>, the inner one \<open>getBounds_inner\<close>. Both
  call sites pass a stride of 2 or 3; the test \<open>0 < stride\<close> stands for that.
\<close>

fun getBounds_inner ::
  "jsnum list \<Rightarrow> nat \<Rightarrow> nat list \<Rightarrow> jsnum list \<times> jsnum list \<Rightarrow> jsnum list \<times> jsnum list" where
  "getBounds_inner array i [] mm = mm"
| "getBounds_inner array i (j # js) mm =
     getBounds_inner array i js
       ((fst mm)[j := ToFloat32 (js_min (js_get (fst mm) j) (js_get array (i + j)))],
        (snd mm)[j := ToFloat32 (js_max (js_get (snd mm) j) (js_get array (i + j)))])"

function getBounds_loop ::
  "jsnum list \<Rightarrow> nat \<Rightarrow> nat \<Rightarrow> jsnum list \<times> jsnum list \<Rightarrow> jsnum list \<times> jsnum list" where
  "getBounds_loop array stride i mm =
     (if i < length array \<and> 0 < stride
      then getBounds_loop array stride (i + stride) (getBounds_inner array i [0..<stride] mm)
      else mm)"
  by pat_completeness auto
termination
  by (relation "measure (\<lambda>(array, stride, i, mm). length array - i)") auto

declare getBounds_loop.simps [simp del]

definition getBounds :: "jsnum list \<Rightarrow> nat \<Rightarrow> jsnum list \<times> jsnum list" where
  "getBounds array stride =
     getBounds_loop array stride 0
       (replicate stride (ToFloat32 (Num MAX_VALUE)),
        replicate stride (ToFloat32 (Num (- MAX_VALUE))))"

text \<open>
  Modelled from the spec: the matrix helpers of \<open>xeogl.math\<close> (\<open>identityMat4\<close>,
  \<open>translationMat4v\<close>, \<open>scalingMat4v\<close>, \<open>mulMat4\<close> and their 3x3 counterparts) are not
  under src. The spec gives the decode transform as \<open>translate(min) \<cdot> scale(s)\<close>; the
  matrices are the usual column-major WebGL ones, a list of 16 (or 9) numbers.
\<close>

definition identityMat4 :: "jsnum list" where
  "identityMat4 = map Num [1, 0, 0, 0,  0, 1, 0, 0,  0, 0, 1, 0,  0, 0, 0, 1]"

definition translationMat4v :: "jsnum list \<Rightarrow> jsnum list \<Rightarrow> jsnum list" where
  "translationMat4v v m = m[12 := js_get v 0, 13 := js_get v 1, 14 := js_get v 2]"

definition scalingMat4v :: "jsnum list \<Rightarrow> jsnum list \<Rightarrow> jsnum list" where
  "scalingMat4v v m = m[0 := js_get v 0, 5 := js_get v 1, 10 := js_get v 2]"

definition mulMat4 :: "jsnum list \<Rightarrow> jsnum list \<Rightarrow> jsnum list" where
  "mulMat4 a b =
     concat (map (\<lambda>c. map (\<lambda>r.
        js_add (js_add (js_add (js_mul (js_get a r) (js_get b (4 * c)))
                               (js_mul (js_get a (4 + r)) (js_get b (4 * c + 1))))
                       (js_mul (js_get a (8 + r)) (js_get b (4 * c + 2))))
               (js_mul (js_get a (12 + r)) (js_get b (4 * c + 3)))) [0..<4]) [0..<4])"

definition identityMat3 :: "jsnum list" where
  "identityMat3 = map Num [1, 0, 0,  0, 1, 0,  0, 0, 1]"

definition translationMat3v :: "jsnum list \<Rightarrow> jsnum list \<Rightarrow> jsnum list" where
  "translationMat3v v m = m[6 := js_get v 0, 7 := js_get v 1]"

definition scalingMat3v :: "jsnum list \<Rightarrow> jsnum list \<Rightarrow> jsnum list" where
  "scalingMat3v v m = m[0 := js_get v 0, 4 := js_get v 1]"

definition mulMat3 :: "jsnum list \<Rightarrow> jsnum list \<Rightarrow> jsnum list" where
  "mulMat3 a b =
     concat (map (\<lambda>c. map (\<lambda>r.
        js_add (js_add (js_mul (js_get a r) (js_get b (3 * c)))
                       (js_mul (js_get a (3 + r)) (js_get b (3 * c + 1))))
               (js_mul (js_get a (6 + r)) (js_get b (3 * c + 2)))) [0..<3]) [0..<3])"

text \<open>
  Modelled from the spec: \<open>xeogl.math.decompressPosition\<close> and \<open>decompressPositions\<close> are
  not under src. The spec describes decoding as the multiplication of the decode matrix
  with the quantized position (with homogeneous coordinate 1).
\<close>

definition decompressPosition :: "jsnum list \<Rightarrow> jsnum list \<Rightarrow> jsnum list" where
  "decompressPosition position decodeMatrix =
     map (\<lambda>r. js_add (js_add (js_add (js_mul (js_get decodeMatrix r) (js_get position 0))
                                      (js_mul (js_get decodeMatrix (4 + r)) (js_get position 1)))
                              (js_mul (js_get decodeMatrix (8 + r)) (js_get position 2)))
                      (js_get decodeMatrix (12 + r))) [0..<3]"

definition decompressPositions :: "jsnum list \<Rightarrow> jsnum list \<Rightarrow> jsnum list" where
  "decompressPositions ps decodeMatrix =
     concat (map (\<lambda>k. decompressPosition [js_get ps (3 * k), js_get ps (3 * k + 1), js_get ps (3 * k + 2)]
                         decodeMatrix) [0..<length ps div 3])"

text \<open>
  \<open>quantizeVec3(array, min, max)\<close>. The multipliers are kept in a \<open>Float32Array\<close>, which
  rounds them. A write past the end of the \<open>Uint16Array\<close> is dropped, as a list update
  past the end is. The result is the quantized array and the decode matrix.
\<close>

definition quantize_component :: "jsnum list \<Rightarrow> jsnum list \<Rightarrow> jsnum list \<Rightarrow> nat \<Rightarrow> nat \<Rightarrow> 16 word" where
  "quantize_component array mn multiplier i j =
     ToUint16 (js_floor (js_mul (js_sub (js_get array (i + j)) (js_get mn j)) (js_get multiplier j)))"

function quantizeVec3_loop ::
  "jsnum list \<Rightarrow> jsnum list \<Rightarrow> jsnum list \<Rightarrow> nat \<Rightarrow> 16 word list \<Rightarrow> 16 word list" where
  "quantizeVec3_loop array mn multiplier i q =
     (if i < length array
      then quantizeVec3_loop array mn multiplier (i + 3)
             (q[i := quantize_component array mn multiplier i 0,
                i + 1 := quantize_component array mn multiplier i 1,
                i + 2 := quantize_component array mn multiplier i 2])
      else q)"
  by pat_completeness auto
termination
  by (relation "measure (\<lambda>(array, mn, multiplier, i, q). length array - i)") auto

declare quantizeVec3_loop.simps [simp del]

definition quantizeVec3 :: "jsnum list \<Rightarrow> jsnum list \<Rightarrow> jsnum list \<Rightarrow> 16 word list \<times> jsnum list" where
  "quantizeVec3 array mn mx =
     (let multiplier = elems (new_Float32Array
                        [js_div (Num 65535) (js_sub (js_get mx 0) (js_get mn 0)),
                         js_div (Num 65535) (js_sub (js_get mx 1) (js_get mn 1)),
                         js_div (Num 65535) (js_sub (js_get mx 2) (js_get mn 2))]);
          quantized = quantizeVec3_loop array mn multiplier 0 (replicate (length array) 0);
          translate = translationMat4v mn identityMat4;
          scale = scalingMat4v
                    [js_div (js_sub (js_get mx 0) (js_get mn 0)) (Num 65535),
                     js_div (js_sub (js_get mx 1) (js_get mn 1)) (Num 65535),
                     js_div (js_sub (js_get mx 2) (js_get mn 2)) (Num 65535)] identityMat4
      in (quantized, mulMat4 translate scale))"

function quantizeVec2_loop ::
  "jsnum list \<Rightarrow> jsnum list \<Rightarrow> jsnum list \<Rightarrow> nat \<Rightarrow> 16 word list \<Rightarrow> 16 word list" where
  "quantizeVec2_loop array mn multiplier i q =
     (if i < length array
      then quantizeVec2_loop array mn multiplier (i + 2)
             (q[i := quantize_component array mn multiplier i 0,
                i + 1 := quantize_component array mn multiplier i 1])
      else q)"
  by pat_completeness auto
termination
  by (relation "measure (\<lambda>(array, mn, multiplier, i, q). length array - i)") auto

declare quantizeVec2_loop.simps [simp del]

definition quantizeVec2 :: "jsnum list \<Rightarrow> jsnum list \<Rightarrow> jsnum list \<Rightarrow> 16 word list \<times> jsnum list" where
  "quantizeVec2 array mn mx =
     (let multiplier = elems (new_Float32Array
                        [js_div (Num 65535) (js_sub (js_get mx 0) (js_get mn 0)),
                         js_div (Num 65535) (js_sub (js_get mx 1) (js_get mn 1))]);
          quantized = quantizeVec2_loop array mn multiplier 0 (replicate (length array) 0);
          translate = translationMat3v mn identityMat3;
          scale = scalingMat3v
                    [js_div (js_sub (js_get mx 0) (js_get mn 0)) (Num 65535),
                     js_div (js_sub (js_get mx 1) (js_get mn 1)) (Num 65535)] identityMat3
      in (quantized, mulMat3 translate scale))"

text \<open>
  For the statements about quantization: the components on axis \<open>j\<close> of an array of
  \<open>stride\<close>-tuples; a number that is a 32-bit float (what a \<open>Float32Array\<close> holds); a
  finite number whose rounding to a 32-bit float is finite; and an array of tuples of
  such numbers in which all the components on the axis of the component at \<open>i\<close> are the
  same number.
\<close>

definition axis :: "jsnum list \<Rightarrow> nat \<Rightarrow> nat \<Rightarrow> jsnum list" where
  "axis array stride j = map (\<lambda>k. array ! (stride * k + j)) [0..<length array div stride]"

definition is_float32 :: "jsnum \<Rightarrow> bool" where
  "is_float32 x = (case x of Num r \<Rightarrow> fround r = Num r | _ \<Rightarrow> False)"

definition fits_float32 :: "jsnum \<Rightarrow> bool" where
  "fits_float32 x = (case x of Num r \<Rightarrow> (case fround r of Num r' \<Rightarrow> True | _ \<Rightarrow> False) | _ \<Rightarrow> False)"

definition constant_axis :: "jsnum list \<Rightarrow> nat \<Rightarrow> nat \<Rightarrow> bool" where
  "constant_axis array stride i =
     (length array mod stride = 0 \<and> i < length array \<and> list_all fits_float32 array \<and>
      list_all (\<lambda>x. x = array ! i) (axis array stride (i mod stride)))"

section \<open>Oct-encoding of normals\<close>

datatype rounding = Floor | Ceil

fun js_round :: "rounding \<Rightarrow> jsnum \<Rightarrow> jsnum" where
  "js_round Floor x = js_floor x"
| "js_round Ceil x = js_ceil x"

text \<open>\<open>octEncodeVec3(array, i, xfunc, yfunc)\<close>: the two bytes of an \<open>Int8Array\<close>.\<close>

definition octEncodeVec3 :: "jsnum list \<Rightarrow> nat \<Rightarrow> rounding \<Rightarrow> rounding \<Rightarrow> 8 word list" where
  "octEncodeVec3 array i xfunc yfunc =
     (let s = js_add (js_add (js_abs (js_get array i)) (js_abs (js_get array (i + 1))))
                     (js_abs (js_get array (i + 2)));
          x0 = js_div (js_get array i) s;
          y0 = js_div (js_get array (i + 1)) s;
          fold = js_lt (js_get array (i + 2)) (Num 0);
          x = (if fold then js_mul (js_sub (Num 1) (js_abs y0)) (if js_ge x0 (Num 0) then Num 1 else Num (- 1))
               else x0);
          y = (if fold then js_mul (js_sub (Num 1) (js_abs x0)) (if js_ge y0 (Num 0) then Num 1 else Num (- 1))
               else y0)
      in [ToInt8 (js_round xfunc (js_add (js_mul x (Num 127.5)) (if js_lt x (Num 0) then Num (- 1) else Num 0))),
          ToInt8 (js_round yfunc (js_add (js_mul y (Num 127.5)) (if js_lt y (Num 0) then Num (- 1) else Num 0)))])"

text \<open>
  \<open>octDecodeVec2(oct)\<close>. In the unfolding branch the source assigns \<open>x\<close> first and then
  computes \<open>y\<close> from the new \<open>x\<close>; \<open>x1\<close> and \<open>y1\<close> follow it.
\<close>

definition byte_num :: "8 word list \<Rightarrow> nat \<Rightarrow> jsnum" where
  "byte_num oct i = (if i < length oct then Num (real_of_int (sint (oct ! i))) else NaN)"

definition octDecodeVec2 :: "8 word list \<Rightarrow> jsnum list" where
  "octDecodeVec2 oct =
     (let x0 = js_div (byte_num oct 0) (if js_lt (byte_num oct 0) (Num 0) then Num 127 else Num 128);
          y0 = js_div (byte_num oct 1) (if js_lt (byte_num oct 1) (Num 0) then Num 127 else Num 128);
          z = js_sub (js_sub (Num 1) (js_abs x0)) (js_abs y0);
          x1 = (if js_lt z (Num 0)
                then js_mul (js_sub (Num 1) (js_abs y0)) (if js_ge x0 (Num 0) then Num 1 else Num (- 1))
                else x0);
          y1 = (if js_lt z (Num 0)
                then js_mul (js_sub (Num 1) (js_abs x1)) (if js_ge y0 (Num 0) then Num 1 else Num (- 1))
                else y0);
          len = js_sqrt (js_add (js_add (js_mul x1 x1) (js_mul y1 y1)) (js_mul z z))
      in [js_div x1 len, js_div y1 len, js_div z len])"

definition dot :: "jsnum list \<Rightarrow> nat \<Rightarrow> jsnum list \<Rightarrow> jsnum" where
  "dot array i vec3 =
     js_add (js_add (js_mul (js_get array i) (js_get vec3 0))
                    (js_mul (js_get array (i + 1)) (js_get vec3 1)))
            (js_mul (js_get array (i + 2)) (js_get vec3 2))"

text \<open>
  The body of the loop of \<open>octEncode\<close> for the normal at \<open>i\<close>: the final \<open>best\<close>. The
  pairs are \<open>(best, bestCos)\<close> after each of the four candidates.
\<close>

definition oct_try ::
  "jsnum list \<Rightarrow> nat \<Rightarrow> rounding \<Rightarrow> rounding \<Rightarrow> 8 word list \<times> jsnum \<Rightarrow> 8 word list \<times> jsnum" where
  "oct_try array i xfunc yfunc bb =
     (let oct = octEncodeVec3 array i xfunc yfunc;
          dec = octDecodeVec2 oct;
          currentCos = dot array i dec
      in if js_gt currentCos (snd bb) then (oct, currentCos) else bb)"

definition octEncode_best :: "jsnum list \<Rightarrow> nat \<Rightarrow> 8 word list" where
  "octEncode_best array i =
     (let oct = octEncodeVec3 array i Floor Floor;
          dec = octDecodeVec2 oct;
          bb0 = (oct, dot array i dec);
          bb1 = oct_try array i Ceil Floor bb0;
          bb2 = oct_try array i Floor Ceil bb1;
          bb3 = oct_try array i Ceil Ceil bb2
      in fst bb3)"

text \<open>
  \<open>octEncode(array)\<close>. The length \<open>array.length * 2 / 3\<close> of the \<open>Int8Array\<close> is truncated
  when the array is not a sequence of triples; a write past its end is dropped.
\<close>

function octEncode_loop :: "jsnum list \<Rightarrow> nat \<Rightarrow> nat \<Rightarrow> 8 word list \<Rightarrow> 8 word list" where
  "octEncode_loop array i ei encoded =
     (if i < length array
      then octEncode_loop array (i + 3) (ei + 2)
             (encoded[ei := octEncode_best array i ! 0, ei + 1 := octEncode_best array i ! 1])
      else encoded)"
  by pat_completeness auto
termination
  by (relation "measure (\<lambda>(array, i, ei, encoded). length array - i)") auto

declare octEncode_loop.simps [simp del]

definition octEncode :: "jsnum list \<Rightarrow> 8 word list" where
  "octEncode array = octEncode_loop array 0 0 (replicate (length array * 2 div 3) 0)"

section \<open>Edge indices\<close>

text \<open>
  Modelled from the spec: the vector helpers of \<open>xeogl.math\<close> (\<open>subVec3\<close>, \<open>cross3Vec3\<close>,
  \<open>normalizeVec3\<close>, \<open>dotVec3\<close>) and the constant \<open>DEGTORAD\<close> are not under src. The spec
  gives the face normal as \<open>normalize(cross(c - b, a - b))\<close> and the threshold as
  \<open>cos(thresholdDegrees)\<close>.
\<close>

definition subVec3 :: "jsnum list \<Rightarrow> jsnum list \<Rightarrow> jsnum list" where
  "subVec3 u v = [js_sub (js_get u 0) (js_get v 0), js_sub (js_get u 1) (js_get v 1),
                  js_sub (js_get u 2) (js_get v 2)]"

definition cross3Vec3 :: "jsnum list \<Rightarrow> jsnum list \<Rightarrow> jsnum list" where
  "cross3Vec3 u v =
     [js_sub (js_mul (js_get u 1) (js_get v 2)) (js_mul (js_get u 2) (js_get v 1)),
      js_sub (js_mul (js_get u 2) (js_get v 0)) (js_mul (js_get u 0) (js_get v 2)),
      js_sub (js_mul (js_get u 0) (js_get v 1)) (js_mul (js_get u 1) (js_get v 0))]"

definition lenVec3 :: "jsnum list \<Rightarrow> jsnum" where
  "lenVec3 v = js_sqrt (js_add (js_add (js_mul (js_get v 0) (js_get v 0))
                                       (js_mul (js_get v 1) (js_get v 1)))
                               (js_mul (js_get v 2) (js_get v 2)))"

definition normalizeVec3 :: "jsnum list \<Rightarrow> jsnum list" where
  "normalizeVec3 v = [js_div (js_get v 0) (lenVec3 v), js_div (js_get v 1) (lenVec3 v),
                      js_div (js_get v 2) (lenVec3 v)]"

definition dotVec3 :: "jsnum list \<Rightarrow> jsnum list \<Rightarrow> jsnum" where
  "dotVec3 u v = js_add (js_add (js_mul (js_get u 0) (js_get v 0))
                                (js_mul (js_get u 1) (js_get v 1)))
                        (js_mul (js_get u 2) (js_get v 2))"

definition DEGTORAD :: real where
  "DEGTORAD = pi / 180"

text \<open>
  \<open>positions[ia]\<close> with a computed index: \<open>undefined\<close> (here NaN) unless the index is a
  natural number below the length.
\<close>

definition js_index :: "jsnum list \<Rightarrow> jsnum \<Rightarrow> jsnum" where
  "js_index xs k =
     (case k of
        Num r \<Rightarrow> (if 0 \<le> r \<and> r = real_of_int \<lfloor>r\<rfloor> \<and> nat \<lfloor>r\<rfloor> < length xs
                  then xs ! nat \<lfloor>r\<rfloor> else NaN)
      | _ \<Rightarrow> NaN)"

definition read_vec3 :: "jsnum list \<Rightarrow> jsnum \<Rightarrow> jsnum list" where
  "read_vec3 ps k = [js_index ps k, js_index ps (js_add k (Num 1)), js_index ps (js_add k (Num 2))]"

text \<open>
  The body of the loop of \<open>buildFaces\<close> for the triangle at \<open>i\<close>: its normal. With a
  decode matrix the three components pass through the \<open>Uint16Array\<close>s \<open>compa\<close>,
  \<open>compb\<close>, \<open>compc\<close> before they are decoded.
\<close>

definition through_Uint16 :: "jsnum list \<Rightarrow> jsnum list" where
  "through_Uint16 v = map (\<lambda>x. Num (real (unat (ToUint16 x)))) v"

definition face_normal :: "jsnum list \<Rightarrow> jsnum list \<Rightarrow> jsnum list option \<Rightarrow> nat \<Rightarrow> jsnum list" where
  "face_normal ps ixs decodeMat i =
     (let ia = js_mul (js_get ixs i) (Num 3);
          ib = js_mul (js_get ixs (i + 1)) (Num 3);
          ic = js_mul (js_get ixs (i + 2)) (Num 3);
          a = (case decodeMat of
                 Some m \<Rightarrow> decompressPosition (through_Uint16 (read_vec3 ps ia)) m
               | None \<Rightarrow> read_vec3 ps ia);
          b = (case decodeMat of
                 Some m \<Rightarrow> decompressPosition (through_Uint16 (read_vec3 ps ib)) m
               | None \<Rightarrow> read_vec3 ps ib);
          c = (case decodeMat of
                 Some m \<Rightarrow> decompressPosition (through_Uint16 (read_vec3 ps ic)) m
               | None \<Rightarrow> read_vec3 ps ic);
          cb = subVec3 c b;
          ab = subVec3 a b;
          cross = cross3Vec3 cb ab
      in normalizeVec3 cross)"

function buildFaces_loop ::
  "jsnum list \<Rightarrow> jsnum list \<Rightarrow> jsnum list option \<Rightarrow> nat \<Rightarrow> jsnum list list \<Rightarrow> jsnum list list" where
  "buildFaces_loop ps ixs m i faces =
     (if i < length ixs
      then buildFaces_loop ps ixs m (i + 3) (faces @ [face_normal ps ixs m i])
      else faces)"
  by pat_completeness auto
termination
  by (relation "measure (\<lambda>(ps, ixs, m, i, faces). length ixs - i)") auto

declare buildFaces_loop.simps [simp del]

definition buildFaces :: "jsnum list \<Rightarrow> jsnum list \<Rightarrow> jsnum list option \<Rightarrow> jsnum list list" where
  "buildFaces ps ixs m = buildFaces_loop ps ixs m 0 []"

text \<open>
  The object \<open>edges\<close>, keyed by the string \<open>index1 + "," + index2\<close>. Two such strings are
  equal exactly when the two numbers are, so the key is the pair; no such string is an
  array index, so the object is enumerated in insertion order.
\<close>

record edge =
  index1 :: jsnum
  index2 :: jsnum
  face1 :: nat
  face2 :: "nat option"

fun edges_put ::
  "((jsnum \<times> jsnum) \<times> edge) list \<Rightarrow> jsnum \<times> jsnum \<Rightarrow> nat \<Rightarrow> ((jsnum \<times> jsnum) \<times> edge) list" where
  "edges_put [] k faceIndex =
     [(k, \<lparr>index1 = fst k, index2 = snd k, face1 = faceIndex, face2 = None\<rparr>)]"
| "edges_put ((k', e) # es) k faceIndex =
     (if k' = k then (k', e\<lparr>face2 := Some faceIndex\<rparr>) # es
      else (k', e) # edges_put es k faceIndex)"

fun edges_inner ::
  "jsnum list \<Rightarrow> nat \<Rightarrow> nat list \<Rightarrow> ((jsnum \<times> jsnum) \<times> edge) list \<Rightarrow> ((jsnum \<times> jsnum) \<times> edge) list" where
  "edges_inner ixs i [] edges = edges"
| "edges_inner ixs i (j # js) edges =
     (let edge1 = js_get ixs (i + j);
          edge2 = js_get ixs (i + ((j + 1) mod 3))
      in edges_inner ixs i js (edges_put edges (js_min edge1 edge2, js_max edge1 edge2) (i div 3)))"

function edges_loop ::
  "jsnum list \<Rightarrow> nat \<Rightarrow> ((jsnum \<times> jsnum) \<times> edge) list \<Rightarrow> ((jsnum \<times> jsnum) \<times> edge) list" where
  "edges_loop ixs i edges =
     (if i < length ixs then edges_loop ixs (i + 3) (edges_inner ixs i [0..<3] edges) else edges)"
  by pat_completeness auto
termination
  by (relation "measure (\<lambda>(ixs, i, edges). length ixs - i)") auto

declare edges_loop.simps [simp del]

text \<open>
  The second loop: \<open>edge_skipped\<close> is the test that leads to \<open>continue\<close>; the state is
  \<open>(largeIndex, edgeIndices)\<close>. Every face index stored in an edge is below the number
  of faces, which the first loop and \<open>buildFaces\<close> count alike.
\<close>

definition edge_skipped :: "jsnum list list \<Rightarrow> jsnum \<Rightarrow> edge \<Rightarrow> bool" where
  "edge_skipped faces thresholdDot e =
     (case face2 e of None \<Rightarrow> False
      | Some f2 \<Rightarrow> js_gt (dotVec3 (faces ! face1 e) (faces ! f2)) thresholdDot)"

fun emit_loop ::
  "jsnum list list \<Rightarrow> jsnum \<Rightarrow> jsnum \<Rightarrow> ((jsnum \<times> jsnum) \<times> edge) list \<Rightarrow> bool \<times> jsnum list
     \<Rightarrow> bool \<times> jsnum list" where
  "emit_loop faces thresholdDot indicesOffset [] st = st"
| "emit_loop faces thresholdDot indicesOffset ((k, e) # es) st =
     (if edge_skipped faces thresholdDot e then emit_loop faces thresholdDot indicesOffset es st
      else
        (let ia = js_add (index1 e) indicesOffset;
             ib = js_add (index2 e) indicesOffset;
             largeIndex = (if (\<not> fst st \<and> js_gt ia (Num 65535)) \<or> js_gt ib (Num 65535) then True
                           else fst st)
         in emit_loop faces thresholdDot indicesOffset es (largeIndex, snd st @ [ia, ib])))"

definition edgeIndices_of ::
  "jsnum list \<Rightarrow> jsnum list \<Rightarrow> jsnum list option \<Rightarrow> jsnum \<Rightarrow> jsnum \<Rightarrow> bool \<times> jsnum list" where
  "edgeIndices_of ps ixs decodeMat indicesOffset ghostEdgeThreshold =
     (let faces = buildFaces ps ixs decodeMat;
          thresholdDot = js_cos (js_mul (Num DEGTORAD) ghostEdgeThreshold);
          edges = edges_loop ixs 0 []
      in emit_loop faces thresholdDot indicesOffset edges (False, []))"

definition buildEdgesIndices ::
  "jsnum list \<Rightarrow> jsnum list \<Rightarrow> jsnum list option \<Rightarrow> jsnum \<Rightarrow> jsnum \<Rightarrow> jsarray" where
  "buildEdgesIndices ps ixs decodeMat indicesOffset ghostEdgeThreshold =
     (case edgeIndices_of ps ixs decodeMat indicesOffset ghostEdgeThreshold of
        (largeIndex, edgeIndices) \<Rightarrow>
          if largeIndex then new_Uint32Array edgeIndices else new_Uint16Array edgeIndices)"

section \<open>The Geometry component\<close>

text \<open>
  The configuration passed to \<open>_init\<close>. A missing or \<open>null\<close> property is \<open>None\<close>; the
  three flags are the results of \<open>!!cfg.combined\<close>, \<open>!!cfg.quantized\<close> and
  \<open>!!cfg.autoVertexNormals\<close>.
\<close>

record geometry_cfg =
  cfg_combined :: bool
  cfg_quantized :: bool
  cfg_autoVertexNormals :: bool
  cfg_primitive :: "string option"
  cfg_positions :: "jsarray option"
  cfg_normals :: "jsarray option"
  cfg_uv :: "jsarray option"
  cfg_colors :: "jsarray option"
  cfg_indices :: "jsarray option"
  cfg_ghostEdgeThreshold :: "jsnum option"

datatype geometry_error =
    UnsupportedPrimitive string
  | Uint32NotSupported
  | QuantizedImmutable
  | NoPositions
  | WrongLength

text \<open>
  The scene holds the pools in \<open>scene._sceneVertexBufs\<close>, keyed by the hash of
  \<open>getSceneVertexBufs\<close>. A Geometry (\<open>component\<close>) refers to its pool by that hash.
  \<open>errors\<close> collects the calls of \<open>this.error\<close>, \<open>fired\<close> the events, \<open>imageDirty\<close> the
  call of \<open>this._renderer.imageDirty()\<close>. The pick buffers and the bounding volumes,
  which \<open>_init\<close> only resets, are represented by their dirty flags and \<open>None\<close> buffers.
\<close>

record scene =
  sceneVertexBufs :: "string \<rightharpoonup> scene_vertex_bufs"

record component =
  state :: geometry
  ghostEdgeThreshold :: jsnum
  edgesIndicesBuf :: "jsarray option"
  pickTrianglePositionsBuf :: "jsarray option"
  pickTriangleColorsBuf :: "jsarray option"
  boundaryDirty :: bool
  aabbDirty :: bool
  obbDirty :: bool
  pool :: "string option"
  created :: bool
  errors :: "geometry_error list"
  fired :: "string list"
  imageDirty :: bool

definition pool_hash :: "geometry \<Rightarrow> string" where
  "pool_hash g =
     (if positions g \<noteq> None then ''p'' else []) @ '';'' @
     (if quantized g then ''c'' else []) @ '';'' @
     (if normals g \<noteq> None then ''n'' else []) @ '';'' @
     (if colors g \<noteq> None then ''c'' else []) @ '';'' @
     (if uv g \<noteq> None then ''u'' else [])"

definition getSceneVertexBufs :: "scene \<Rightarrow> geometry \<Rightarrow> string \<times> scene" where
  "getSceneVertexBufs sc g =
     (case sceneVertexBufs sc (pool_hash g) of
        Some p \<Rightarrow> (pool_hash g, sc)
      | None \<Rightarrow> (pool_hash g,
                 sc\<lparr>sceneVertexBufs := (sceneVertexBufs sc)(pool_hash g \<mapsto>
                      SceneVertexBufs (positions g \<noteq> None) (normals g \<noteq> None) (colors g \<noteq> None)
                        (uv g \<noteq> None) (quantized g))\<rparr>))"

text \<open>The WebGL constants \<open>gl.POINTS\<close> ... \<open>gl.TRIANGLE_FAN\<close> are 0 ... 6.\<close>

fun gl_code :: "gl_primitive \<Rightarrow> string" where
  "gl_code POINTS = ''0''"
| "gl_code LINES = ''1''"
| "gl_code LINE_LOOP = ''2''"
| "gl_code LINE_STRIP = ''3''"
| "gl_code TRIANGLES = ''4''"
| "gl_code TRIANGLE_STRIP = ''5''"
| "gl_code TRIANGLE_FAN = ''6''"

definition buildHash :: "geometry \<Rightarrow> geometry" where
  "buildHash st =
     st\<lparr>hash := ''/g'' @ ''/'' @ (case primitive st of None \<Rightarrow> ''null'' | Some pr \<Rightarrow> gl_code pr) @ '';'' @
          (if positions st \<noteq> None then ''p'' else []) @
          (if colors st \<noteq> None then ''c'' else []) @
          (if normals st \<noteq> None \<or> autoVertexNormals st then ''n'' else []) @
          (if uv st \<noteq> None then ''u'' else []) @
          (if quantized st then ''cp'' else []) @ '';''\<rparr>"

definition buildVBOs :: "geometry \<Rightarrow> geometry" where
  "buildVBOs st0 =
     (let st1 = (if indices st0 \<noteq> None then st0\<lparr>indicesBuf := indices st0\<rparr> else st0)
      in if combined st1 then st1
         else
           (let st2 = (if positions st1 \<noteq> None then st1\<lparr>positionsBuf := positions st1\<rparr> else st1);
                st3 = (if normals st2 \<noteq> None then st2\<lparr>normalsBuf := normals st2\<rparr> else st2);
                st4 = (if colors st3 \<noteq> None then st3\<lparr>colorsBuf := colors st3\<rparr> else st3)
            in (if uv st4 \<noteq> None then st4\<lparr>uvBuf := uv st4\<rparr> else st4)))"

definition as_Float32Array :: "jsarray \<Rightarrow> jsarray" where
  "as_Float32Array a = (case a of Float32Array xs \<Rightarrow> a | _ \<Rightarrow> new_Float32Array (elems a))"

definition is_Uint32Array :: "jsarray \<Rightarrow> bool" where
  "is_Uint32Array a = (case a of Uint32Array ws \<Rightarrow> True | _ \<Rightarrow> False)"

definition is_Uint16Array :: "jsarray \<Rightarrow> bool" where
  "is_Uint16Array a = (case a of Uint16Array ws \<Rightarrow> True | _ \<Rightarrow> False)"

text \<open>The \<open>switch\<close> on \<open>cfg.primitive || "triangles"\<close>.\<close>

definition init_primitive :: "string option \<Rightarrow> gl_primitive \<times> string \<times> geometry_error list" where
  "init_primitive pr =
     (let name = (case pr of None \<Rightarrow> ''triangles'' | Some s \<Rightarrow> if s = [] then ''triangles'' else s)
      in if name = ''points'' then (POINTS, name, [])
         else if name = ''lines'' then (LINES, name, [])
         else if name = ''line-loop'' then (LINE_LOOP, name, [])
         else if name = ''line-strip'' then (LINE_STRIP, name, [])
         else if name = ''triangles'' then (TRIANGLES, name, [])
         else if name = ''triangle-strip'' then (TRIANGLE_STRIP, name, [])
         else if name = ''triangle-fan'' then (TRIANGLE_FAN, name, [])
         else (TRIANGLES, name, [UnsupportedPrimitive name]))"

text \<open>
  The attribute part of \<open>_init\<close>: positions, colors, uv and normals, in the order of the
  source.
\<close>

definition init_attributes :: "geometry_cfg \<Rightarrow> geometry \<Rightarrow> geometry" where
  "init_attributes cfg st0 =
     (let st1 = (case cfg_positions cfg of None \<Rightarrow> st0
                 | Some ps \<Rightarrow>
                     if quantized st0
                     then (let bounds = getBounds (elems ps) 3;
                               q = quantizeVec3 (elems ps) (fst bounds) (snd bounds)
                           in st0\<lparr>positions := Some (Uint16Array (fst q)),
                                  positionsDecodeMatrix := Some (snd q)\<rparr>)
                     else st0\<lparr>positions := Some (as_Float32Array ps)\<rparr>);
          st2 = (case cfg_colors cfg of None \<Rightarrow> st1
                 | Some cs \<Rightarrow> st1\<lparr>colors := Some (as_Float32Array cs)\<rparr>);
          st3 = (case cfg_uv cfg of None \<Rightarrow> st2
                 | Some us \<Rightarrow>
                     if quantized st2
                     then (let bounds = getBounds (elems us) 2;
                               q = quantizeVec2 (elems us) (fst bounds) (snd bounds)
                           in st2\<lparr>uv := Some (Uint16Array (fst q)), uvDecodeMatrix := Some (snd q)\<rparr>)
                     else st2\<lparr>uv := Some (as_Float32Array us)\<rparr>)
      in (case cfg_normals cfg of None \<Rightarrow> st3
          | Some ns \<Rightarrow>
              if quantized st3 then st3\<lparr>normals := Some (Int8Array (octEncode (elems ns)))\<rparr>
              else st3\<lparr>normals := Some (as_Float32Array ns)\<rparr>))"

text \<open>
  \<open>_init(cfg)\<close>, on a platform with or without 32-bit indices (\<open>big\<close>). \<open>sid\<close> is the id
  that \<open>xeogl.renderer.Geometry\<close> (not under src) gives the new state. The result is
  the component and the scene. When \<open>cfg.indices\<close> is a \<open>Uint32Array\<close> that the platform
  does not support, \<open>_init\<close> returns early.
\<close>

definition init :: "bool \<Rightarrow> scene \<Rightarrow> key \<Rightarrow> geometry_cfg \<Rightarrow> component \<times> scene" where
  "init big sc sid cfg =
     (let st0 = \<lparr>geom_id = sid, combined = cfg_combined cfg, quantized = cfg_quantized cfg,
                 autoVertexNormals = cfg_autoVertexNormals cfg, primitive = None,
                 primitiveName = None, positions = None, normals = None, colors = None,
                 uv = None, indices = None, positionsDecodeMatrix = None, uvDecodeMatrix = None,
                 positionsBuf = None, normalsBuf = None, colorsBuf = None, uvBuf = None,
                 indicesBuf = None, indicesBufCombined = None, hash = []\<rparr>;
          pr = init_primitive (cfg_primitive cfg);
          c0 = \<lparr>state = st0\<lparr>primitive := Some (fst pr), primitiveName := Some (fst (snd pr))\<rparr>,
                ghostEdgeThreshold = (case cfg_ghostEdgeThreshold cfg of
                                        None \<Rightarrow> Num 2
                                      | Some t \<Rightarrow> if js_truthy t then t else Num 2),
                edgesIndicesBuf = None, pickTrianglePositionsBuf = None,
                pickTriangleColorsBuf = None, boundaryDirty = True, aabbDirty = True,
                obbDirty = True, pool = None, created = False, errors = snd (snd pr),
                fired = [], imageDirty = False\<rparr>;
          st1 = init_attributes cfg (state c0)
      in if (case cfg_indices cfg of None \<Rightarrow> False | Some ix \<Rightarrow> \<not> big \<and> is_Uint32Array ix)
         then (c0\<lparr>state := st1, errors := errors c0 @ [Uint32NotSupported]\<rparr>, sc)
         else
           (let st2 = (case cfg_indices cfg of None \<Rightarrow> st1
                       | Some ix \<Rightarrow>
                           st1\<lparr>indices := Some (if is_Uint32Array ix \<or> is_Uint16Array ix then ix
                                                 else if big then new_Uint32Array (elems ix)
                                                 else new_Uint16Array (elems ix))\<rparr>);
                st3 = (if indices st2 \<noteq> None then st2\<lparr>indicesBuf := indices st2\<rparr> else st2);
                st4 = buildHash (buildVBOs st3)
            in if combined st4
               then (let hs = getSceneVertexBufs sc st4;
                         p = addGeometry (the (sceneVertexBufs (snd hs) (fst hs))) st4
                     in (c0\<lparr>state := st4, pool := Some (fst hs), created := True,
                            fired := fired c0 @ [''created'']\<rparr>,
                         (snd hs)\<lparr>sceneVertexBufs := (sceneVertexBufs (snd hs))(fst hs \<mapsto> p)\<rparr>))
               else (c0\<lparr>state := st4, created := True, fired := fired c0 @ [''created'']\<rparr>, sc)))"

text \<open>
  \<open>_buildGhostEdgesIndices\<close>. An offset \<open>undefined\<close> becomes NaN in the additions of
  \<open>buildEdgesIndices\<close>. The rebuild that \<open>getIndicesOffset\<close> may run writes
  \<open>indicesBufCombined\<close> into the state kept by the pool.
\<close>

definition buildGhostEdgesIndices :: "bool \<Rightarrow> scene \<Rightarrow> component \<Rightarrow> js_error + component \<times> scene" where
  "buildGhostEdgesIndices big sc c =
     (case (positions (state c), indices (state c)) of
        (Some ps, Some ixs) \<Rightarrow>
          (if combined (state c) then
             (case pool c of None \<Rightarrow> Inl TypeError
              | Some h \<Rightarrow>
                 (case sceneVertexBufs sc h of None \<Rightarrow> Inl TypeError
                  | Some p \<Rightarrow>
                     (case getIndicesOffset big p (state c) of Inl e \<Rightarrow> Inl e
                      | Inr (off, p') \<Rightarrow>
                          Inr (c\<lparr>edgesIndicesBuf := Some (buildEdgesIndices (elems ps) (elems ixs)
                                    (positionsDecodeMatrix (state c))
                                    (case off of None \<Rightarrow> NaN | Some r \<Rightarrow> Num r)
                                    (ghostEdgeThreshold c))\<rparr>,
                               sc\<lparr>sceneVertexBufs := (sceneVertexBufs sc)(h \<mapsto> p')\<rparr>))))
           else Inr (c\<lparr>edgesIndicesBuf := Some (buildEdgesIndices (elems ps) (elems ixs)
                          (positionsDecodeMatrix (state c)) (Num 0) (ghostEdgeThreshold c))\<rparr>, sc))
      | _ \<Rightarrow> Inr (c, sc))"

text \<open>
  Modelled from the spec: \<open>xeogl.renderer.ArrayBuffer\<close> and its \<open>setData(data, offset)\<close>
  are not under src. The spec says that the pool's shared buffer is updated at the
  record's offset: the elements of \<open>data\<close> overwrite those of the buffer from \<open>offset\<close> on.
\<close>

definition like_array :: "jsarray \<Rightarrow> jsnum list \<Rightarrow> jsarray" where
  "like_array a xs =
     (case a of Array ys \<Rightarrow> Array xs
      | Float32Array ys \<Rightarrow> new_Float32Array xs
      | Uint16Array ws \<Rightarrow> new_Uint16Array xs
      | Uint32Array ws \<Rightarrow> new_Uint32Array xs
      | Int8Array ws \<Rightarrow> new_Int8Array xs)"

definition setData :: "jsarray \<Rightarrow> jsarray \<Rightarrow> nat \<Rightarrow> jsarray" where
  "setData buf data offset =
     like_array buf (take offset (elems buf) @
                     take (array_length buf - offset) (elems data) @
                     drop (offset + array_length data) (elems buf))"

text \<open>
  \<open>setPositions\<close> of the pool. The in-place \<open>positions.set(newPositions)\<close> of the caller
  is visible through the pool's reference to the state: \<open>see_positions\<close> copies the
  positions into the state kept by the pool.
\<close>

definition see_positions :: "scene_vertex_bufs \<Rightarrow> geometry \<Rightarrow> scene_vertex_bufs" where
  "see_positions p g =
     p\<lparr>geometries := map (\<lambda>(k, g0). if k = geom_id g then (k, g0\<lparr>positions := positions g\<rparr>) else (k, g0))
                          (geometries p)\<rparr>"

definition setPositions :: "scene_vertex_bufs \<Rightarrow> geometry \<Rightarrow> scene_vertex_bufs" where
  "setPositions p g =
     (case geometryVertexBufs p (geom_id g) of None \<Rightarrow> p
      | Some r \<Rightarrow>
         (case positions g of None \<Rightarrow> p
          | Some ps \<Rightarrow>
             (case vb_positionsBuf (vb_heap p ! r) of None \<Rightarrow> p
              | Some buf \<Rightarrow>
                 p\<lparr>vb_heap := (vb_heap p)[r := (vb_heap p ! r)\<lparr>vb_positionsBuf :=
                      Some (setData buf ps
                              (nat \<lfloor>(case geometryIndicesOffsets p (geom_id g) of None \<Rightarrow> 0 | Some off \<Rightarrow> off) * 3\<rfloor>))\<rparr>]\<rparr>)))"

definition setBoundaryDirty :: "component \<Rightarrow> component" where
  "setBoundaryDirty c =
     (if boundaryDirty c then c
      else c\<lparr>boundaryDirty := True, aabbDirty := True, obbDirty := True,
             fired := fired c @ [''boundary'']\<rparr>)"

text \<open>
  The setter of \<open>positions\<close>. \<open>positions.set(newPositions)\<close> is a method of typed arrays;
  the state never holds a plain array.
\<close>

definition set_positions :: "scene \<Rightarrow> component \<Rightarrow> jsarray \<Rightarrow> js_error + component \<times> scene" where
  "set_positions sc c newPositions =
     (if quantized (state c) then Inr (c\<lparr>errors := errors c @ [QuantizedImmutable]\<rparr>, sc)
      else
        (case positions (state c) of
           None \<Rightarrow> Inr (c\<lparr>errors := errors c @ [NoPositions]\<rparr>, sc)
         | Some ps \<Rightarrow>
            if array_length ps \<noteq> array_length newPositions
            then Inr (c\<lparr>errors := errors c @ [WrongLength]\<rparr>, sc)
            else
              (case ps of Array xs \<Rightarrow> Inl TypeError
               | _ \<Rightarrow>
                 (let ps' = like_array ps (elems newPositions);
                      st1 = (state c)\<lparr>positions := Some ps'\<rparr>;
                      st2 = (if positionsBuf st1 \<noteq> None then st1\<lparr>positionsBuf := Some ps'\<rparr> else st1);
                      c1 = (setBoundaryDirty (c\<lparr>state := st2\<rparr>))\<lparr>imageDirty := True\<rparr>
                  in if combined st2 then
                       (case pool c of None \<Rightarrow> Inl TypeError
                        | Some h \<Rightarrow>
                           (case sceneVertexBufs sc h of None \<Rightarrow> Inl TypeError
                            | Some p \<Rightarrow>
                                Inr (c1, sc\<lparr>sceneVertexBufs := (sceneVertexBufs sc)(h \<mapsto>
                                               setPositions (see_positions p st2) st2)\<rparr>)))
                     else Inr (c1, sc)))))"

section \<open>Example geometries\<close>

text \<open>
  A combined, unquantized state with positions and indices only, as \<open>_init\<close> leaves it for
  triangles: the geometries used at the concrete inputs below.
\<close>

definition mk_geometry :: "key \<Rightarrow> jsarray \<Rightarrow> jsarray \<Rightarrow> geometry" where
  "mk_geometry k ps ixs =
     \<lparr>geom_id = k, combined = True, quantized = False, autoVertexNormals = False,
      primitive = Some TRIANGLES, primitiveName = Some ''triangles'', positions = Some ps,
      normals = None, colors = None, uv = None, indices = Some ixs,
      positionsDecodeMatrix = None, uvDecodeMatrix = None, positionsBuf = None,
      normalsBuf = None, colorsBuf = None, uvBuf = None, indicesBuf = Some ixs,
      indicesBufCombined = None, hash = ''/g/4;p;''\<rparr>"

definition gA :: geometry where
  "gA = mk_geometry (Name ''A'') (Float32Array (replicate 120000 (Num 0))) (Uint16Array [0, 1, 39999])"

definition gB :: geometry where
  "gB = mk_geometry (Name ''B'') (Float32Array (replicate 120000 (Num 0))) (Uint16Array [0, 1, 39999])"






definition tC :: geometry where
  "tC = mk_geometry (Name ''C'') (Float32Array (map Num [0,0,2, 1,0,2, 0,1,2])) (Uint16Array [0, 1, 2])"

text \<open>
  An empty scene, the configuration of a quantized triangle, a configuration without
  positions, and arrays of positions and UVs: a triangle in the plane \<open>z = 0\<close>; three
  points; three points of 32-bit floats whose multiplier \<open>65535 / 7\<close> is not one; two
  points with the coordinate \<open>1 / 10\<close>, which is not a 32-bit float; two points
  \<open>2 ^ -140\<close> apart on the first axis; and two UV pairs with the same second coordinate.
\<close>

definition scene0 :: scene where
  "scene0 = \<lparr>sceneVertexBufs = Map.empty\<rparr>"

definition cfg_triangle :: geometry_cfg where
  "cfg_triangle = \<lparr>cfg_combined = False, cfg_quantized = True, cfg_autoVertexNormals = False,
     cfg_primitive = None, cfg_positions = Some (Array (map Num [0,0,0, 1,0,0, 0,1,0])),
     cfg_normals = None, cfg_uv = None, cfg_colors = None,
     cfg_indices = Some (Array (map Num [0,1,2])), cfg_ghostEdgeThreshold = None\<rparr>"

definition cfg_no_positions :: geometry_cfg where
  "cfg_no_positions = \<lparr>cfg_combined = False, cfg_quantized = False, cfg_autoVertexNormals = False,
     cfg_primitive = Some ''triangles'', cfg_positions = None,
     cfg_normals = None, cfg_uv = None, cfg_colors = None,
     cfg_indices = Some (Uint16Array [0, 1, 2]), cfg_ghostEdgeThreshold = None\<rparr>"

definition flat_triangle :: "jsnum list" where
  "flat_triangle = map Num [0, 0, 0,  1, 0, 0,  0, 1, 0]"

definition three_points :: "jsnum list" where
  "three_points = map Num [0, 0, 0,  1, 2, 4,  1 / 2, 1 / 2, 1 / 2]"

definition skew_points :: "jsnum list" where
  "skew_points = map Num [0, 0, 0,  7, 7, 7,  1023 / 256, 0, 0]"

definition tenth_points :: "jsnum list" where
  "tenth_points = map Num [1 / 10, 0, 0,  1, 1, 1]"

definition tiny_points :: "jsnum list" where
  "tiny_points = map Num [0, 0, 0,  1 / 2 ^ 140, 1, 1]"

definition flat_uvs :: "jsnum list" where
  "flat_uvs = map Num [0, 1 / 10,  1, 1 / 10]"

text \<open>
  A geometry has the attributes of a pool's signature when it has positions and indices
  and every attribute the pool accumulates. \<open>getSceneVertexBufs\<close> picks the pool by that
  signature, so the geometries \<open>_init\<close> registers satisfy it.
\<close>

definition fits_pool :: "scene_vertex_bufs \<Rightarrow> geometry \<Rightarrow> bool" where
  "fits_pool p g =
     (positions g \<noteq> None \<and> indices g \<noteq> None \<and> (hasNormals p \<longrightarrow> normals g \<noteq> None) \<and>
      (hasColors p \<longrightarrow> colors g \<noteq> None) \<and> (hasUVs p \<longrightarrow> uv g \<noteq> None))"

section \<open>The combined vertex buffers: offsets and chunks\<close>

lemma push_attr_ok: "(has \<longrightarrow> attr \<noteq> None) \<Longrightarrow> push_attr has attr acc = Inr (if has then acc @ elems (the attr) else acc)"
  by (auto simp: push_attr_def)

lemma createBufs_fields [simp]:
  "hasPositions (createBufs r p) = hasPositions p"
  "hasNormals (createBufs r p) = hasNormals p"
  "hasColors (createBufs r p) = hasColors p"
  "hasUVs (createBufs r p) = hasUVs p"
  "svb_quantized (createBufs r p) = svb_quantized p"
  "geometries (createBufs r p) = geometries p"
  "geometryIndicesOffsets (createBufs r p) = geometryIndicesOffsets p"
  "geometryVertexBufs (createBufs r p) = geometryVertexBufs p"
  "vertexBufs (createBufs r p) = vertexBufs p"
  "needRebuild (createBufs r p) = needRebuild p"
  "needAppend (createBufs r p) = needAppend p"
  "newGeometries (createBufs r p) = newGeometries p"
  "svb_log (createBufs r p) = svb_log p"
  "svb_positions (createBufs r p) = (if hasPositions p then [] else svb_positions p)"
  by (simp_all add: createBufs_def Let_def)

lemma new_chunk_fields [simp]:
  "hasPositions (new_chunk p) = hasPositions p"
  "hasNormals (new_chunk p) = hasNormals p"
  "hasColors (new_chunk p) = hasColors p"
  "hasUVs (new_chunk p) = hasUVs p"
  "svb_quantized (new_chunk p) = svb_quantized p"
  "geometries (new_chunk p) = geometries p"
  "geometryIndicesOffsets (new_chunk p) = geometryIndicesOffsets p"
  "geometryVertexBufs (new_chunk p) = geometryVertexBufs p"
  "\<exists>y. vertexBufs (new_chunk p) = Some y"
  "needRebuild (new_chunk p) = needRebuild p"
  "needAppend (new_chunk p) = needAppend p"
  "newGeometries (new_chunk p) = newGeometries p"
  "svb_log (new_chunk p) = svb_log p"
  "svb_positions (new_chunk p) = (if vertexBufs p \<noteq> None \<and> hasPositions p then [] else svb_positions p)"
  by (simp_all add: new_chunk_def Let_def split: option.splits)

lemma adjust_indices_Some: "gi \<noteq> None \<Longrightarrow> fst (adjust_indices big off gi) \<noteq> None"
  by (auto simp: adjust_indices_def Let_def)

text \<open>What one pass of the loop does for a geometry with the pool's attributes.\<close>

lemma build_step_ok:
  fixes big :: bool
  assumes "fits_pool p g"
  defines "needNew \<equiv> (vertexBufs p = None \<or> real (length (svb_positions p) + array_length (the (positions g))) > CHUNK_LEN big)"
  shows "\<exists>p'. build_step big (p, off) (k, g) = Inr (p', (if needNew then 0 else off) + real (array_length (the (positions g))) / 3)
     \<and> geometryIndicesOffsets p' = (geometryIndicesOffsets p)(k \<mapsto> (if needNew then 0 else off))
     \<and> vertexBufs p' \<noteq> None
     \<and> hasPositions p' = hasPositions p \<and> hasNormals p' = hasNormals p \<and> hasColors p' = hasColors p \<and> hasUVs p' = hasUVs p
     \<and> svb_positions p' = (if hasPositions p then (if needNew \<and> vertexBufs p \<noteq> None then [] else svb_positions p) @ elems (the (positions g))
                           else svb_positions p)
     \<and> geometries p' = obj_put (geometries p) k
           (g\<lparr>indicesBufCombined := fst (adjust_indices big (if needNew then 0 else off) (indices g))\<rparr>)
     \<and> svb_log p' = svb_log p @ snd (adjust_indices big (if needNew then 0 else off) (indices g))"
proof -
  obtain gpos gix where g: "positions g = Some gpos" "indices g = Some gix"
    using assms(1) by (auto simp: fits_pool_def)
  obtain ixs msgs where a: "adjust_indices big (if needNew then 0 else off) (indices g) = (Some ixs, msgs)"
    using adjust_indices_Some[of "indices g" big "if needNew then 0 else off"] g
    by (cases "adjust_indices big (if needNew then 0 else off) (indices g)") auto
  have n: "hasNormals p \<longrightarrow> normals g \<noteq> None" "hasColors p \<longrightarrow> colors g \<noteq> None" "hasUVs p \<longrightarrow> uv g \<noteq> None"
    using assms(1) by (auto simp: fits_pool_def)
  show ?thesis
    using g a n unfolding needNew_def
    by (auto simp: build_step_def Let_def push_attr_ok)
qed



lemma fits_pool_ibc [simp]: "fits_pool p (g\<lparr>indicesBufCombined := x\<rparr>) = fits_pool p g"
  by (simp add: fits_pool_def)




lemma build_three:
  fixes big :: bool
  assumes g: "geometries p = [(a, A), (b, B), (c, C)]"
    and d: "a \<noteq> b" "a \<noteq> c" "b \<noteq> c"
    and f: "fits_pool p A" "fits_pool p B" "fits_pool p C"
    and hp: "hasPositions p" and e: "svb_positions p = []"
  defines "la \<equiv> array_length (the (positions A))"
    and "lb \<equiv> array_length (the (positions B))"
    and "lc \<equiv> array_length (the (positions C))"
  defines "newB \<equiv> CHUNK_LEN big < real (la + lb)"
  defines "offB \<equiv> (if newB then 0 else real la / 3)"
  defines "newC \<equiv> CHUNK_LEN big < real ((if newB then lb else la + lb) + lc)"
  defines "offC \<equiv> (if newC then 0 else offB + real lb / 3)"
  shows "\<exists>p4. build big p = Inr p4
     \<and> geometryIndicesOffsets p4 = (geometryIndicesOffsets p)(a \<mapsto> 0, b \<mapsto> offB, c \<mapsto> offC)
     \<and> \<not> needRebuild p4 \<and> \<not> needAppend p4
     \<and> hasNormals p4 = hasNormals p \<and> hasColors p4 = hasColors p \<and> hasUVs p4 = hasUVs p
     \<and> geometries p4 = [(a, A\<lparr>indicesBufCombined := fst (adjust_indices big 0 (indices A))\<rparr>),
                         (b, B\<lparr>indicesBufCombined := fst (adjust_indices big offB (indices B))\<rparr>),
                         (c, C\<lparr>indicesBufCombined := fst (adjust_indices big offC (indices C))\<rparr>)]
     \<and> svb_log p4 = svb_log p @ snd (adjust_indices big 0 (indices A))
                       @ snd (adjust_indices big offB (indices B)) @ snd (adjust_indices big offC (indices C))"
proof -
  define p00 where "p00 = p\<lparr>geometryVertexBufs := Map.empty, vertexBufs := None\<rparr>"
  have f0: "fits_pool p00 A" using f by (simp add: fits_pool_def p00_def)
  have v0: "vertexBufs p00 = None" and h0: "hasPositions p00" "hasNormals p00 = hasNormals p"
    "hasColors p00 = hasColors p" "hasUVs p00 = hasUVs p" and g0: "geometries p00 = geometries p"
    and e0: "svb_positions p00 = []" and i0: "geometryIndicesOffsets p00 = geometryIndicesOffsets p"
    and l0: "svb_log p00 = svb_log p"
    using hp e by (simp_all add: p00_def)
  from build_step_ok[OF f0, of big 0 a] v0 h0 e0 g0 i0 l0
  obtain p1 where s1: "build_step big (p00, 0) (a, A) = Inr (p1, real la / 3)"
    and o1: "geometryIndicesOffsets p1 = (geometryIndicesOffsets p)(a \<mapsto> 0)"
    and v1: "vertexBufs p1 \<noteq> None"
    and f1: "hasPositions p1" "hasNormals p1 = hasNormals p" "hasColors p1 = hasColors p" "hasUVs p1 = hasUVs p"
    and a1: "svb_positions p1 = elems (the (positions A))"
    and g1: "geometries p1 = obj_put (geometries p) a (A\<lparr>indicesBufCombined := fst (adjust_indices big 0 (indices A))\<rparr>)"
    and l1: "svb_log p1 = svb_log p @ snd (adjust_indices big 0 (indices A))"
    unfolding la_def by auto
  have fB: "fits_pool p1 B" using f f1 by (simp add: fits_pool_def)
  have nB: "(vertexBufs p1 = None \<or> CHUNK_LEN big < real (length (svb_positions p1) + array_length (the (positions B)))) = newB"
    using v1 a1 by (auto simp: array_length_def newB_def la_def lb_def)
  from build_step_ok[OF fB, of big "real la / 3" b] f1 a1 v1
  obtain p2 where s2: "build_step big (p1, real la / 3) (b, B) = Inr (p2, offB + real lb / 3)"
    and o2: "geometryIndicesOffsets p2 = (geometryIndicesOffsets p1)(b \<mapsto> offB)"
    and v2: "vertexBufs p2 \<noteq> None"
    and f2: "hasPositions p2" "hasNormals p2 = hasNormals p" "hasColors p2 = hasColors p" "hasUVs p2 = hasUVs p"
    and a2: "svb_positions p2 = (if newB then [] else elems (the (positions A))) @ elems (the (positions B))"
    and g2: "geometries p2 = obj_put (geometries p1) b (B\<lparr>indicesBufCombined := fst (adjust_indices big offB (indices B))\<rparr>)"
    and l2: "svb_log p2 = svb_log p1 @ snd (adjust_indices big offB (indices B))"
    unfolding nB offB_def lb_def by auto
  have fC: "fits_pool p2 C" using f f2 by (simp add: fits_pool_def)
  have nC: "(vertexBufs p2 = None \<or> CHUNK_LEN big < real (length (svb_positions p2) + array_length (the (positions C)))) = newC"
    using v2 a2 by (auto simp: array_length_def newC_def la_def lb_def lc_def)
  from build_step_ok[OF fC, of big "offB + real lb / 3" c] f2
  obtain p3 off3 where s3: "build_step big (p2, offB + real lb / 3) (c, C) = Inr (p3, off3)"
    and o3: "geometryIndicesOffsets p3 = (geometryIndicesOffsets p2)(c \<mapsto> offC)"
    and v3: "vertexBufs p3 \<noteq> None"
    and f3: "hasNormals p3 = hasNormals p" "hasColors p3 = hasColors p" "hasUVs p3 = hasUVs p"
    and g3: "geometries p3 = obj_put (geometries p2) c (C\<lparr>indicesBufCombined := fst (adjust_indices big offC (indices C))\<rparr>)"
    and l3: "svb_log p3 = svb_log p2 @ snd (adjust_indices big offC (indices C))"
    unfolding nC offC_def by auto
  have gg: "geometries p3 = [(a, A\<lparr>indicesBufCombined := fst (adjust_indices big 0 (indices A))\<rparr>),
                         (b, B\<lparr>indicesBufCombined := fst (adjust_indices big offB (indices B))\<rparr>),
                         (c, C\<lparr>indicesBufCombined := fst (adjust_indices big offC (indices C))\<rparr>)]"
    using g g1 g2 g3 d by (simp add: obj_put_def obj_get_def)
  have l: "build_loop big (geometries p00) (p00, 0) = Inr (p3, off3)"
    using s1 s2 s3 g g0 by simp
  show ?thesis
    using l o1 o2 o3 f3 gg v3 l1 l2 l3
    by (auto simp: build_def p00_def[symmetric] Let_def)
qed


lemma addGeometry_fields:
  assumes "positions g \<noteq> None" "indices g \<noteq> None"
  shows "geometries (addGeometry p g) = obj_put (geometries p) (geom_id g) g"
    and "needAppend (addGeometry p g)"
    and "hasPositions (addGeometry p g) = hasPositions p"
    and "hasNormals (addGeometry p g) = hasNormals p"
    and "hasColors (addGeometry p g) = hasColors p"
    and "hasUVs (addGeometry p g) = hasUVs p"
    and "svb_positions (addGeometry p g) = svb_positions p"
    and "svb_log (addGeometry p g) = svb_log p"
  using assms by (auto simp: addGeometry_def)


lemma SceneVertexBufs_fields:
  "geometries (SceneVertexBufs hp hn hc hu q) = []"
  "hasPositions (SceneVertexBufs hp hn hc hu q) = hp"
  "hasNormals (SceneVertexBufs hp hn hc hu q) = hn"
  "hasColors (SceneVertexBufs hp hn hc hu q) = hc"
  "hasUVs (SceneVertexBufs hp hn hc hu q) = hu"
  "svb_positions (SceneVertexBufs hp hn hc hu q) = []"
  "svb_log (SceneVertexBufs hp hn hc hu q) = []"
  by (simp_all add: SceneVertexBufs_def)

lemma add_three:
  fixes hp hn hc hu q :: bool
  assumes pres: "positions A \<noteq> None" "indices A \<noteq> None" "positions B \<noteq> None" "indices B \<noteq> None"
      "positions C \<noteq> None" "indices C \<noteq> None"
    and ids: "geom_id A \<noteq> geom_id B" "geom_id A \<noteq> geom_id C" "geom_id B \<noteq> geom_id C"
    and order: "\<not> key_precedes (geom_id B) (geom_id A)" "\<not> key_precedes (geom_id C) (geom_id A)"
               "\<not> key_precedes (geom_id C) (geom_id B)"
  defines "p3 \<equiv> addGeometry (addGeometry (addGeometry (SceneVertexBufs hp hn hc hu q) A) B) C"
  shows "geometries p3 = [(geom_id A, A), (geom_id B, B), (geom_id C, C)]"
    and "needAppend p3"
    and "hasPositions p3 = hp" "hasNormals p3 = hn" "hasColors p3 = hc" "hasUVs p3 = hu"
    and "svb_positions p3 = []" and "svb_log p3 = []"
proof -
  show "geometries p3 = [(geom_id A, A), (geom_id B, B), (geom_id C, C)]"
    using ids order
    by (simp add: p3_def addGeometry_fields(1)[OF pres(5,6)] addGeometry_fields(1)[OF pres(3,4)]
          addGeometry_fields(1)[OF pres(1,2)] SceneVertexBufs_fields obj_put_def obj_get_def)
  show "needAppend p3"
    by (simp add: p3_def addGeometry_fields(2)[OF pres(5,6)])
  show "hasPositions p3 = hp" "hasNormals p3 = hn" "hasColors p3 = hc" "hasUVs p3 = hu"
    "svb_positions p3 = []" "svb_log p3 = []"
    by (simp_all add: p3_def addGeometry_fields(3-8)[OF pres(5,6)] addGeometry_fields(3-8)[OF pres(3,4)]
          addGeometry_fields(3-8)[OF pres(1,2)] SceneVertexBufs_fields)
qed

lemma example_geometries:
  "positions (mk_geometry k ps ixs) = Some ps" "indices (mk_geometry k ps ixs) = Some ixs"
  "geom_id (mk_geometry k ps ixs) = k" "fits_pool (SceneVertexBufs hp False False False q) (mk_geometry k ps ixs)"
  by (simp_all add: mk_geometry_def fits_pool_def SceneVertexBufs_def)


text \<open>
  C1. The claim: no offset-adjusted index written into a combined index buffer exceeds
  the index width, because the pool starts a new chunk before an index can overflow.
  Without 32-bit indices \<open>CHUNK_LEN\<close> is 256000 and is compared with the length of the
  accumulated positions, so that two geometries of 40000 vertices (120000 numbers) each
  and a triangle share a chunk. The second geometry gets the offset 40000; its index
  39999 becomes 79999, which the \<open>Uint16Array\<close> wraps to 14463, and the range check,
  which reads the wrapped value, reports nothing.
\<close>

theorem combined_index_wraps:
  "fst (projr (getIndicesOffset False
      (addGeometry (addGeometry (addGeometry (SceneVertexBufs True False False False False) gA) gB) tC) gB))
     = Some 40000
   \<and> map_option indicesBufCombined (obj_get (geometries (snd (projr (getIndicesOffset False
      (addGeometry (addGeometry (addGeometry (SceneVertexBufs True False False False False) gA) gB) tC) gB))))
        (Name ''B''))
     = Some (Some (Uint16Array [40000, 40001, 14463]))
   \<and> svb_log (snd (projr (getIndicesOffset False
      (addGeometry (addGeometry (addGeometry (SceneVertexBufs True False False False False) gA) gB) tC) gB)))
     = []"
proof -
  define p3 where "p3 = addGeometry (addGeometry (addGeometry (SceneVertexBufs True False False False False) gA) gB) tC"
  have pres: "positions gA \<noteq> None" "indices gA \<noteq> None" "positions gB \<noteq> None"
    "indices gB \<noteq> None" "positions tC \<noteq> None" "indices tC \<noteq> None"
    and d: "geom_id gA \<noteq> geom_id gB" "geom_id gA \<noteq> geom_id tC" "geom_id gB \<noteq> geom_id tC"
    and order: "\<not> key_precedes (geom_id gB) (geom_id gA)" "\<not> key_precedes (geom_id tC) (geom_id gA)"
      "\<not> key_precedes (geom_id tC) (geom_id gB)"
    by (simp_all add: gA_def gB_def tC_def example_geometries)
  note a = add_three[OF pres d order, where hp = True and hn = False and hc = False and hu = False
      and q = False, folded p3_def]
  have f: "fits_pool p3 gA" "fits_pool p3 gB" "fits_pool p3 tC"
    using a by (simp_all add: fits_pool_def gA_def gB_def tC_def mk_geometry_def)
  have hp: "hasPositions p3" using a(3) by simp
  from build_three[OF a(1) d f hp a(7), of False]
  obtain p4 where b: "build False p3 = Inr p4"
    and o: "geometryIndicesOffsets p4 (Name ''B'') = Some 40000"
    and g: "map_option indicesBufCombined (obj_get (geometries p4) (Name ''B''))
              = Some (fst (adjust_indices False 40000 (indices gB)))"
    and l: "svb_log p4 = snd (adjust_indices False 0 (indices gA)) @ snd (adjust_indices False 40000 (indices gB))
              @ snd (adjust_indices False 80000 (indices tC))"
    using a(8)
    by (auto simp: gA_def gB_def tC_def example_geometries array_length_def CHUNK_LEN_def obj_get_def)
  have i: "adjust_indices False 40000 (indices gB) = (Some (Uint16Array [40000, 40001, 14463]), [])"
    by (simp add: gB_def example_geometries adjust_indices_def add_offset16_def ToUint16_def js_trunc_def
          CHUNK_LEN_def)
  have j: "snd (adjust_indices False 0 (indices gA)) = []"
    "snd (adjust_indices False 80000 (indices tC)) = []"
    by (simp_all add: gA_def tC_def example_geometries adjust_indices_def add_offset16_def ToUint16_def
          js_trunc_def CHUNK_LEN_def)
  have "getIndicesOffset False p3 gB = Inr (Some 40000, p4)"
    using b a(2) o by (simp add: getIndicesOffset_def gB_def example_geometries)
  then show ?thesis
    using g l i j unfolding p3_def[symmetric] by simp
qed




section \<open>The Geometry component: construction and immutability\<close>

lemma init_attributes_fields [simp]:
  "quantized (init_attributes cfg st) = quantized st"
  "combined (init_attributes cfg st) = combined st"
  "geom_id (init_attributes cfg st) = geom_id st"
  "indices (init_attributes cfg st) = indices st"
  "autoVertexNormals (init_attributes cfg st) = autoVertexNormals st"
  "primitive (init_attributes cfg st) = primitive st"
  by (simp_all add: init_attributes_def Let_def split: option.splits)

lemma init_attributes_positions:
  "positions st = None \<Longrightarrow> (positions (init_attributes cfg st) = None) = (cfg_positions cfg = None)"
  by (simp add: init_attributes_def Let_def split: option.splits)

lemma buildVBOs_fields [simp]:
  "quantized (buildVBOs st) = quantized st"
  "combined (buildVBOs st) = combined st"
  "geom_id (buildVBOs st) = geom_id st"
  "indices (buildVBOs st) = indices st"
  "positions (buildVBOs st) = positions st"
  "normals (buildVBOs st) = normals st"
  "colors (buildVBOs st) = colors st"
  "uv (buildVBOs st) = uv st"
  by (simp_all add: buildVBOs_def Let_def)

lemma buildHash_fields [simp]:
  "quantized (buildHash st) = quantized st"
  "combined (buildHash st) = combined st"
  "geom_id (buildHash st) = geom_id st"
  "indices (buildHash st) = indices st"
  "positions (buildHash st) = positions st"
  "normals (buildHash st) = normals st"
  "colors (buildHash st) = colors st"
  "uv (buildHash st) = uv st"
  by (simp_all add: buildHash_def)

lemma init_quantized: "quantized (state (fst (init big sc sid cfg))) = cfg_quantized cfg"
  by (simp add: init_def Let_def split: option.splits)

text \<open>
  C4. For a Geometry constructed with \<open>quantized\<close> true, every attempt to set the positions
  (whatever the length of the new array) is reported as an error and changes nothing
  else: the result is the component with the error added, its state (the quantized
  positions, the decode matrix and all the rest) and the scene unchanged.
\<close>

theorem quantized_positions_immutable:
  assumes "cfg_quantized cfg" and "c = fst (init big sc0 sid cfg)"
  shows "set_positions sc c newPositions = Inr (c\<lparr>errors := errors c @ [QuantizedImmutable]\<rparr>, sc)"
  using assms by (simp add: set_positions_def init_quantized)

text \<open>
  C4 at the quantized triangle, with positions of the same length.
\<close>

theorem quantized_positions_immutable_witness:
  "set_positions scene0 (fst (init False scene0 (Index 1) cfg_triangle)) (Array (map Num [5,5,5, 6,5,5, 5,6,5]))
     = Inr ((fst (init False scene0 (Index 1) cfg_triangle))
              \<lparr>errors := errors (fst (init False scene0 (Index 1) cfg_triangle)) @ [QuantizedImmutable]\<rparr>, scene0)"
  using quantized_positions_immutable[where cfg = cfg_triangle and big = False and sid = "Index 1"
      and sc0 = scene0 and sc = scene0 and c = "fst (init False scene0 (Index 1) cfg_triangle)"]
  by (simp add: cfg_triangle_def)

text \<open>
  C10. The stored threshold is \<open>cfg.ghostEdgeThreshold || 2.0\<close>: a missing value, 0 and
  NaN give the default 2, every other number (negative ones and the infinities
  included) is stored as given. This holds on every path of \<open>_init\<close>, the early return
  included.
\<close>

theorem ghostEdgeThreshold_default:
  "ghostEdgeThreshold (fst (init big sc sid (cfg\<lparr>cfg_ghostEdgeThreshold := t\<rparr>))) =
     (case t of None \<Rightarrow> Num 2
      | Some (Num r) \<Rightarrow> if r = 0 then Num 2 else Num r
      | Some NaN \<Rightarrow> Num 2
      | Some PosInf \<Rightarrow> PosInf
      | Some NegInf \<Rightarrow> NegInf)"
  by (simp add: init_def Let_def split: option.splits jsnum.splits)

text \<open>
  C10 at the thresholds 0 and -5.
\<close>

theorem ghostEdgeThreshold_default_witness:
  "ghostEdgeThreshold (fst (init False scene0 (Index 1) (cfg_triangle\<lparr>cfg_ghostEdgeThreshold := Some (Num 0)\<rparr>))) = Num 2
   \<and> ghostEdgeThreshold (fst (init False scene0 (Index 1) (cfg_triangle\<lparr>cfg_ghostEdgeThreshold := Some (Num (- 5))\<rparr>))) = Num (- 5)"
  using ghostEdgeThreshold_default[where big = False and sc = scene0 and sid = "Index 1"
      and cfg = cfg_triangle and t = "Some (Num 0)"]
    ghostEdgeThreshold_default[where big = False and sc = scene0 and sid = "Index 1"
      and cfg = cfg_triangle and t = "Some (Num (- 5))"]
  by simp


lemma addGeometry_ignored:
  "positions g = None \<or> indices g = None \<Longrightarrow>
   addGeometry p g = p\<lparr>svb_log := svb_log p @ [IgnoringGeometry (geom_id g)]\<rparr>"
  by (auto simp: addGeometry_def)

lemma getSceneVertexBufs_Some:
  "\<exists>p. sceneVertexBufs (snd (getSceneVertexBufs sc g)) (fst (getSceneVertexBufs sc g)) = Some p"
  by (cases "sceneVertexBufs sc (pool_hash g)") (simp_all add: getSceneVertexBufs_def)

lemma init_state_presence:
  assumes "big \<or> (\<forall>ix. cfg_indices cfg = Some ix \<longrightarrow> \<not> is_Uint32Array ix)"
  shows "(positions (state (fst (init big sc sid cfg))) = None) = (cfg_positions cfg = None)"
    and "(indices (state (fst (init big sc sid cfg))) = None) = (cfg_indices cfg = None)"
    and "geom_id (state (fst (init big sc sid cfg))) = sid"
    and "combined (state (fst (init big sc sid cfg))) = cfg_combined cfg"
    and "created (fst (init big sc sid cfg))"
    and "errors (fst (init big sc sid cfg)) = snd (snd (init_primitive (cfg_primitive cfg)))"
  using assms
  by (auto simp: init_def Let_def init_attributes_positions split: option.splits)

text \<open>
  C5, amended. When \<open>positions\<close> or \<open>indices\<close> is absent (and the indices are not a
  \<open>Uint32Array\<close> on a platform without 32-bit indices), \<open>_init\<close> reports nothing about
  it and completes: \<open>created\<close> is set, the only errors are those of the primitive name,
  and the state simply lacks the attribute. A geometry that is not combined leaves the
  scene untouched; a combined one is passed to \<open>addGeometry\<close>, which logs the warning
  and does not register it.
\<close>

theorem init_tolerates_missing_attribute:
  assumes "cfg_positions cfg = None \<or> cfg_indices cfg = None"
    and "big \<or> (\<forall>ix. cfg_indices cfg = Some ix \<longrightarrow> \<not> is_Uint32Array ix)"
  shows "created (fst (init big sc sid cfg))
     \<and> errors (fst (init big sc sid cfg)) = snd (snd (init_primitive (cfg_primitive cfg)))
     \<and> (positions (state (fst (init big sc sid cfg))) = None) = (cfg_positions cfg = None)
     \<and> (indices (state (fst (init big sc sid cfg))) = None) = (cfg_indices cfg = None)
     \<and> (\<not> cfg_combined cfg \<longrightarrow> snd (init big sc sid cfg) = sc)
     \<and> (cfg_combined cfg \<longrightarrow>
          (\<exists>h p0. pool (fst (init big sc sid cfg)) = Some h
             \<and> sceneVertexBufs (snd (getSceneVertexBufs sc (state (fst (init big sc sid cfg))))) h = Some p0
             \<and> sceneVertexBufs (snd (init big sc sid cfg)) h
                 = Some (p0\<lparr>svb_log := svb_log p0 @ [IgnoringGeometry sid]\<rparr>)))"
proof -
  note pr = init_state_presence[OF assms(2), of sc sid]
  have c: "\<not> cfg_combined cfg \<longrightarrow> snd (init big sc sid cfg) = sc"
    using assms(2) by (auto simp: init_def Let_def split: option.splits)
  have d: "cfg_combined cfg \<longrightarrow>
          (\<exists>h p0. pool (fst (init big sc sid cfg)) = Some h
             \<and> sceneVertexBufs (snd (getSceneVertexBufs sc (state (fst (init big sc sid cfg))))) h = Some p0
             \<and> sceneVertexBufs (snd (init big sc sid cfg)) h
                 = Some (p0\<lparr>svb_log := svb_log p0 @ [IgnoringGeometry sid]\<rparr>))"
  proof
    assume cb: "cfg_combined cfg"
    define st where "st = state (fst (init big sc sid cfg))"
    have mis: "positions st = None \<or> indices st = None" and sid: "geom_id st = sid"
      using pr assms(1) by (auto simp: st_def)
    obtain p0 where p0: "sceneVertexBufs (snd (getSceneVertexBufs sc st)) (fst (getSceneVertexBufs sc st)) = Some p0"
      using getSceneVertexBufs_Some by blast
    have i: "init big sc sid cfg =
        ((fst (init big sc sid cfg)),
         (snd (getSceneVertexBufs sc st))\<lparr>sceneVertexBufs :=
            (sceneVertexBufs (snd (getSceneVertexBufs sc st)))(fst (getSceneVertexBufs sc st) \<mapsto>
               addGeometry (the (sceneVertexBufs (snd (getSceneVertexBufs sc st)) (fst (getSceneVertexBufs sc st)))) st)\<rparr>)"
      and pl: "pool (fst (init big sc sid cfg)) = Some (fst (getSceneVertexBufs sc st))"
      using assms(2) cb unfolding st_def
      by (auto simp: init_def Let_def split: option.splits)
    have "sceneVertexBufs (snd (init big sc sid cfg)) (fst (getSceneVertexBufs sc st))
            = Some (p0\<lparr>svb_log := svb_log p0 @ [IgnoringGeometry sid]\<rparr>)"
      by (subst i) (simp add: p0 addGeometry_ignored[OF mis] sid)
    then show "\<exists>h p0. pool (fst (init big sc sid cfg)) = Some h
             \<and> sceneVertexBufs (snd (getSceneVertexBufs sc (state (fst (init big sc sid cfg))))) h = Some p0
             \<and> sceneVertexBufs (snd (init big sc sid cfg)) h
                 = Some (p0\<lparr>svb_log := svb_log p0 @ [IgnoringGeometry sid]\<rparr>)"
      using pl p0 unfolding st_def by blast
  qed
  show ?thesis using pr c d by blast
qed

text \<open>
  C5, as stated: a configuration without positions or indices is reported as invalid
  and rejected. It fails for a configuration without positions that is not combined:
  \<open>_init\<close> completes, reports no error, builds the index buffer and leaves the scene
  as it was.
\<close>

theorem missing_positions_not_rejected:
  "created (fst (init False scene0 (Index 1) cfg_no_positions))
   \<and> errors (fst (init False scene0 (Index 1) cfg_no_positions)) = []
   \<and> positions (state (fst (init False scene0 (Index 1) cfg_no_positions))) = None
   \<and> indicesBuf (state (fst (init False scene0 (Index 1) cfg_no_positions))) = Some (Uint16Array [0, 1, 2])
   \<and> snd (init False scene0 (Index 1) cfg_no_positions) = scene0"
  by (simp add: init_def Let_def cfg_no_positions_def init_primitive_def init_attributes_def
      is_Uint32Array_def is_Uint16Array_def buildVBOs_def buildHash_def scene0_def)

text \<open>
  The amended C5 at the combined configuration without positions.
\<close>

theorem init_tolerates_missing_attribute_witness:
  "created (fst (init False scene0 (Index 1) (cfg_no_positions\<lparr>cfg_combined := True\<rparr>)))
     \<and> errors (fst (init False scene0 (Index 1) (cfg_no_positions\<lparr>cfg_combined := True\<rparr>))) = []
     \<and> positions (state (fst (init False scene0 (Index 1) (cfg_no_positions\<lparr>cfg_combined := True\<rparr>)))) = None
     \<and> (\<exists>h p0. pool (fst (init False scene0 (Index 1) (cfg_no_positions\<lparr>cfg_combined := True\<rparr>))) = Some h
             \<and> sceneVertexBufs (snd (getSceneVertexBufs scene0
                   (state (fst (init False scene0 (Index 1) (cfg_no_positions\<lparr>cfg_combined := True\<rparr>)))))) h = Some p0
             \<and> sceneVertexBufs (snd (init False scene0 (Index 1) (cfg_no_positions\<lparr>cfg_combined := True\<rparr>))) h
                 = Some (p0\<lparr>svb_log := svb_log p0 @ [IgnoringGeometry (Index 1)]\<rparr>))"
  using init_tolerates_missing_attribute[where cfg = "cfg_no_positions\<lparr>cfg_combined := True\<rparr>"
      and big = False and sc = scene0 and sid = "Index 1"]
  by (simp add: cfg_no_positions_def init_primitive_def is_Uint32Array_def)

section \<open>Quantization: bounds, round trip and degenerate axes\<close>

lemma f32_exponent_from_range:
  "- 126 \<le> f32_exponent_from k a \<and> f32_exponent_from k a \<le> int k - 126"
  by (induction k) auto

lemma f32_exponent_from_lower:
  "f32_exponent_from k a \<noteq> - 126 \<Longrightarrow> 2 powi (f32_exponent_from k a) \<le> a"
  by (induction k) (auto split: if_splits)

lemma f32_exponent_from_upper:
  "f32_exponent_from k a < int k - 126 \<Longrightarrow> a < 2 powi (f32_exponent_from k a + 1)"
proof (induction k)
  case 0
  then show ?case by simp
next
  case (Suc k)
  then have no: "\<not> 2 powi (int k - 125) \<le> a" by (auto split: if_splits)
  then have eq: "f32_exponent_from (Suc k) a = f32_exponent_from k a" by simp
  show ?case
  proof (cases "f32_exponent_from k a < int k - 126")
    case True
    then show ?thesis using Suc.IH eq by simp
  next
    case False
    then have "f32_exponent_from k a = int k - 126"
      using f32_exponent_from_range[of k a] by linarith
    then show ?thesis using no eq by simp
  qed
qed

lemma f32_exponent_range: "- 126 \<le> f32_exponent a" "f32_exponent a \<le> 127"
  using f32_exponent_from_range[of 253 a] by (simp_all add: f32_exponent_def)

lemma f32_exponent_lower: "f32_exponent a \<noteq> - 126 \<Longrightarrow> 2 powi (f32_exponent a) \<le> a"
  unfolding f32_exponent_def by (rule f32_exponent_from_lower)

lemma f32_exponent_upper: "f32_exponent a \<noteq> 127 \<Longrightarrow> a < 2 powi (f32_exponent a + 1)"
  unfolding f32_exponent_def using f32_exponent_from_upper[of 253 a] f32_exponent_from_range[of 253 a]
  by simp

lemma f32_exponentI:
  assumes "- 126 \<le> e" "e \<le> 127" "e = - 126 \<or> 2 powi e \<le> a" "e = 127 \<or> a < 2 powi (e + 1)"
  shows "f32_exponent a = e"
proof (rule ccontr)
  assume ne: "f32_exponent a \<noteq> e"
  let ?e = "f32_exponent a"
  consider "?e < e" | "e < ?e" using ne by linarith
  then show False
  proof cases
    case 1
    then have "2 powi e \<le> a" "a < 2 powi (?e + 1)"
      using assms f32_exponent_range[of a] f32_exponent_upper[of a] by auto
    moreover have "(2::real) powi (?e + 1) \<le> 2 powi e"
      using 1 by (intro power_int_increasing) auto
    ultimately show False by linarith
  next
    case 2
    then have "2 powi ?e \<le> a" "a < 2 powi (e + 1)"
      using assms f32_exponent_range[of a] f32_exponent_lower[of a] by auto
    moreover have "(2::real) powi (e + 1) \<le> 2 powi ?e"
      using 2 by (intro power_int_increasing) auto
    ultimately show False by linarith
  qed
qed


lemma round_half_even_of_int [simp]: "round_half_even (of_int k) = k"
  by (simp add: round_half_even_def)

lemma round_half_even_0 [simp]: "round_half_even 0 = 0"
  using round_half_even_of_int[of 0] by simp

lemma round_half_even_ge: "of_int k \<le> q \<Longrightarrow> k \<le> round_half_even q"
proof -
  assume "of_int k \<le> q"
  then have "k \<le> \<lfloor>q\<rfloor>" by (simp add: le_floor_iff)
  then show ?thesis unfolding round_half_even_def by auto
qed

lemma round_half_even_le: "q \<le> of_int k \<Longrightarrow> round_half_even q \<le> k"
proof -
  assume q: "q \<le> of_int k"
  have "\<lfloor>q\<rfloor> \<le> \<lfloor>of_int k :: real\<rfloor>" using q by (rule floor_mono)
  then have fl: "\<lfloor>q\<rfloor> \<le> k" by simp
  show ?thesis
  proof (cases "\<lfloor>q\<rfloor> = k")
    case True
    then have "q = of_int k" using q by linarith
    then show ?thesis by simp
  next
    case False
    then have "\<lfloor>q\<rfloor> + 1 \<le> k" using fl by linarith
    then show ?thesis unfolding round_half_even_def by auto
  qed
qed

lemma ulp_pos: "0 < (2::real) powi e"
  by (simp add: zero_less_power_int)

lemma fround_cases:
  obtains (fin) r where "fround x = Num r"
      "\<bar>r\<bar> = of_int (round_half_even (\<bar>x\<bar> / 2 powi (f32_exponent \<bar>x\<bar> - 23))) * 2 powi (f32_exponent \<bar>x\<bar> - 23)"
      "\<bar>r\<bar> < 2 ^ 128" "0 \<le> x \<Longrightarrow> 0 \<le> r" "x \<le> 0 \<Longrightarrow> r \<le> 0"
    | (pinf) "fround x = PosInf" "0 < x" | (ninf) "fround x = NegInf" "x < 0"
proof -
  let ?ulp = "(2::real) powi (f32_exponent \<bar>x\<bar> - 23)"
  let ?n = "round_half_even (\<bar>x\<bar> / ?ulp)"
  have n0: "0 \<le> ?n" by (rule round_half_even_ge) (simp add: ulp_pos less_imp_le)
  then have r0: "0 \<le> of_int ?n * ?ulp" by (simp add: ulp_pos less_imp_le)
  show ?thesis
  proof (cases "2 ^ 128 \<le> of_int ?n * ?ulp")
    case True
    then have "x \<noteq> 0"
      by auto
    then show ?thesis using True pinf ninf by (cases "0 < x") (auto simp: fround_def Let_def)
  next
    case False
    show ?thesis
      by (rule fin[of "if x < 0 then - (of_int ?n * ?ulp) else of_int ?n * ?ulp"])
        (use False r0 in \<open>auto simp: fround_def Let_def abs_if\<close>)
  qed
qed



lemma fround_exact:
  assumes "\<bar>x\<bar> / 2 powi (f32_exponent \<bar>x\<bar> - 23) = of_int k" "\<bar>x\<bar> < 2 ^ 128"
  shows "fround x = Num x"
proof -
  have "of_int k * 2 powi (f32_exponent \<bar>x\<bar> - 23) = \<bar>x\<bar>"
    using assms(1) ulp_pos[of "f32_exponent \<bar>x\<bar> - 23"] by (simp add: field_simps)
  then show ?thesis using assms by (auto simp: fround_def Let_def)
qed

lemma fround_idem:
  assumes "fround x = Num r"
  shows "fround r = Num r"
proof -
  define a where "a = \<bar>x\<bar>"
  define e where "e = f32_exponent a"
  define ulp where "ulp = (2::real) powi (e - 23)"
  define n where "n = round_half_even (a / ulp)"
  have up: "0 < ulp" by (simp add: ulp_def ulp_pos)
  obtain ar: "\<bar>r\<bar> = of_int n * ulp" and lt: "\<bar>r\<bar> < 2 ^ 128"
    using assms by (cases x rule: fround_cases) (auto simp: a_def e_def ulp_def n_def)
  have er: "- 126 \<le> e" "e \<le> 127" using f32_exponent_range[of a] by (simp_all add: e_def)
  have p23: "(2::real) powi e = 2 ^ 23 * ulp" "(2::real) powi (e + 1) = 2 ^ 24 * ulp"
    by (simp_all add: ulp_def power_int_diff power_int_add)
  have lo: "e = - 126 \<or> 2 powi e \<le> \<bar>r\<bar>"
  proof (cases "e = - 126")
    case False
    then have "2 powi e \<le> a" using f32_exponent_lower[of a] by (simp add: e_def)
    then have "of_int (2 ^ 23) \<le> a / ulp" using up p23 by (simp add: field_simps)
    then have "2 ^ 23 \<le> n" unfolding n_def by (rule round_half_even_ge)
    then have "(2::real) ^ 23 \<le> of_int n"
      using of_int_le_iff[of "2 ^ 23" n, where ?'a = real] by simp
    then show ?thesis using ar p23 up by simp
  qed simp
  have hi: "e = 127 \<or> \<bar>r\<bar> \<le> 2 powi (e + 1)"
  proof (cases "e = 127")
    case False
    then have "a < 2 powi (e + 1)" using f32_exponent_upper[of a] by (simp add: e_def)
    then have "a / ulp \<le> of_int (2 ^ 24)" using up p23 by (simp add: field_simps)
    then have "n \<le> 2 ^ 24" unfolding n_def by (rule round_half_even_le)
    then have "of_int n \<le> (2::real) ^ 24"
      using of_int_le_iff[of n "2 ^ 24", where ?'a = real] by simp
    then show ?thesis using ar p23 up by simp
  qed simp
  show ?thesis
  proof (cases "e \<noteq> 127 \<and> \<bar>r\<bar> = 2 powi (e + 1)")
    case True
    have "f32_exponent \<bar>r\<bar> = e + 1"
    proof (rule f32_exponentI)
      show "e + 1 = 127 \<or> \<bar>r\<bar> < 2 powi (e + 1 + 1)"
        using True by (simp add: power_int_add)
    qed (use True er in auto)
    then have "\<bar>r\<bar> / 2 powi (f32_exponent \<bar>r\<bar> - 23) = of_int (2 ^ 23)"
      using True by (simp add: power_int_diff power_int_add)
    then show ?thesis using lt by (rule fround_exact)
  next
    case False
    have "f32_exponent \<bar>r\<bar> = e"
      by (rule f32_exponentI) (use False er lo hi in auto)
    then have "\<bar>r\<bar> / 2 powi (f32_exponent \<bar>r\<bar> - 23) = of_int n"
      using ar up by (simp add: ulp_def)
    then show ?thesis using lt by (rule fround_exact)
  qed
qed




lemma fround_eval:
  assumes "- 126 \<le> e" "e \<le> 127" "e = - 126 \<or> 2 powi e \<le> \<bar>x\<bar>" "e = 127 \<or> \<bar>x\<bar> < 2 powi (e + 1)"
    and "round_half_even (\<bar>x\<bar> / 2 powi (e - 23)) = n"
  shows "fround x = (if (2::real) ^ 128 \<le> of_int n * 2 powi (e - 23) then (if 0 < x then PosInf else NegInf)
                     else Num (if x < 0 then - (of_int n * 2 powi (e - 23)) else of_int n * 2 powi (e - 23)))"
  unfolding fround_def Let_def f32_exponentI[OF assms(1-4)] assms(5) by (rule refl)

lemma fround_0 [simp]: "fround 0 = Num 0"
  using fround_eval[of "- 126" 0 0] by simp

lemma fround_MAX_VALUE: "fround MAX_VALUE = PosInf" "fround (- MAX_VALUE) = NegInf"
proof -
  have m: "\<bar>MAX_VALUE\<bar> = MAX_VALUE" "\<bar>- MAX_VALUE\<bar> = MAX_VALUE" "0 < MAX_VALUE"
    by (simp_all add: MAX_VALUE_def)
  have q: "MAX_VALUE / 2 powi (127 - 23) = of_int (2 ^ 920 - 2 ^ 867)"
    by (simp add: MAX_VALUE_def)
  have r: "round_half_even (MAX_VALUE / 2 powi (127 - 23)) = 2 ^ 920 - 2 ^ 867"
    unfolding q by (rule round_half_even_of_int)
  have lo: "2 powi 127 \<le> MAX_VALUE" by (simp add: MAX_VALUE_def)
  show "fround MAX_VALUE = PosInf"
    using fround_eval[of 127 MAX_VALUE "2 ^ 920 - 2 ^ 867"] r lo m by (simp add: MAX_VALUE_def)
  show "fround (- MAX_VALUE) = NegInf"
    using fround_eval[of 127 "- MAX_VALUE" "2 ^ 920 - 2 ^ 867"] r lo m by (simp add: MAX_VALUE_def)
qed

lemma getBounds_inner_nth:
  "distinct js \<Longrightarrow> j < length mn \<Longrightarrow> j < length mx \<Longrightarrow>
   fst (getBounds_inner array i js (mn, mx)) ! j =
     (if j \<in> set js then ToFloat32 (js_min (mn ! j) (js_get array (i + j))) else mn ! j)
   \<and> snd (getBounds_inner array i js (mn, mx)) ! j =
     (if j \<in> set js then ToFloat32 (js_max (mx ! j) (js_get array (i + j))) else mx ! j)"
proof (induction js arbitrary: mn mx)
  case Nil
  then show ?case by simp
next
  case (Cons a js)
  show ?case
    using Cons.prems Cons.IH[of "mn[a := ToFloat32 (js_min (js_get mn a) (js_get array (i + a)))]"
        "mx[a := ToFloat32 (js_max (js_get mx a) (js_get array (i + a)))]"]
    by (cases "j = a") (auto simp: js_get_def)
qed

lemma getBounds_inner_length:
  "length (fst (getBounds_inner array i js mm)) = length (fst mm)
   \<and> length (snd (getBounds_inner array i js mm)) = length (snd mm)"
  by (induction js arbitrary: mm) simp_all

lemma getBounds_loop_axis:
  assumes s: "0 < stride" and len: "length array mod stride = 0" and j: "j < stride"
  shows "length mn = stride \<Longrightarrow> length mx = stride \<Longrightarrow>
    fst (getBounds_loop array stride (stride * n) (mn, mx)) ! j =
      fold (\<lambda>v m. ToFloat32 (js_min m v)) (map (\<lambda>k. array ! (stride * k + j)) [n..<length array div stride]) (mn ! j)
    \<and> snd (getBounds_loop array stride (stride * n) (mn, mx)) ! j =
      fold (\<lambda>v m. ToFloat32 (js_max m v)) (map (\<lambda>k. array ! (stride * k + j)) [n..<length array div stride]) (mx ! j)
    \<and> length (fst (getBounds_loop array stride (stride * n) (mn, mx))) = stride
    \<and> length (snd (getBounds_loop array stride (stride * n) (mn, mx))) = stride"
proof (induction "length array div stride - n" arbitrary: n mn mx)
  case 0
  then have "length array div stride \<le> n" by simp
  then have "stride * (length array div stride) \<le> stride * n" by simp
  then have "\<not> stride * n < length array" using len by (simp add: mod_0_imp_dvd)
  then have "getBounds_loop array stride (stride * n) (mn, mx) = (mn, mx)"
    by (subst getBounds_loop.simps) simp
  then show ?case using 0 by simp
next
  case (Suc d)
  then have n: "n < length array div stride" by simp
  then have "stride * Suc n \<le> stride * (length array div stride)"
    by (intro mult_le_mono2) simp
  then have "stride * n + stride \<le> stride * (length array div stride)" by simp
  then have in_range: "stride * n + j < length array" using len j by (simp add: mod_0_imp_dvd)
  then have lt: "stride * n < length array" by simp
  obtain mn' mx' where inner: "getBounds_inner array (stride * n) [0..<stride] (mn, mx) = (mn', mx')"
    by (cases "getBounds_inner array (stride * n) [0..<stride] (mn, mx)")
  have l': "length mn' = stride" "length mx' = stride"
    using getBounds_inner_length[of array "stride * n" "[0..<stride]" "(mn, mx)"] inner Suc.prems by simp_all
  have v': "mn' ! j = ToFloat32 (js_min (mn ! j) (array ! (stride * n + j)))"
    "mx' ! j = ToFloat32 (js_max (mx ! j) (array ! (stride * n + j)))"
    using getBounds_inner_nth[of "[0..<stride]" j mn mx array "stride * n"] inner Suc.prems j in_range
    by (simp_all add: js_get_def)
  have unf: "getBounds_loop array stride (stride * n) (mn, mx) = getBounds_loop array stride (stride * Suc n) (mn', mx')"
    using lt s inner by (subst getBounds_loop.simps) (simp add: add.commute)
  have d: "d = length array div stride - Suc n" using Suc.hyps(2) by simp
  have up: "[n..<length array div stride] = n # [Suc n..<length array div stride]"
    using n by (rule upt_conv_Cons)
  show ?case
    unfolding unf using Suc.hyps(1)[OF d l'] by (simp add: up v')
qed

lemma getBounds_axis:
  assumes s: "0 < stride" and len: "length array mod stride = 0" and j: "j < stride"
  shows "fst (getBounds array stride) ! j = fold (\<lambda>v m. ToFloat32 (js_min m v)) (axis array stride j) PosInf"
    and "snd (getBounds array stride) ! j = fold (\<lambda>v m. ToFloat32 (js_max m v)) (axis array stride j) NegInf"
    and "length (fst (getBounds array stride)) = stride"
    and "length (snd (getBounds array stride)) = stride"
  using getBounds_loop_axis[OF s len j, of "replicate stride PosInf" "replicate stride NegInf" 0] j
  by (simp_all add: getBounds_def axis_def fround_MAX_VALUE)

lemma axis_subset:
  assumes "0 < stride" "length array mod stride = 0" "j < stride"
  shows "set (axis array stride j) \<subseteq> set array"
proof
  fix x assume "x \<in> set (axis array stride j)"
  then obtain k where k: "k < length array div stride" "x = array ! (stride * k + j)"
    by (auto simp: axis_def)
  then have "stride * Suc k \<le> stride * (length array div stride)"
    by (intro mult_le_mono2) simp
  then have "stride * k + stride \<le> stride * (length array div stride)" by simp
  then have "stride * k + j < length array" using assms by (simp add: mod_0_imp_dvd)
  then show "x \<in> set array" using k(2) by simp
qed


lemma list_update_Cons_numeral [simp]:
  "(x # xs)[numeral n := y] = x # xs[pred_numeral n := y]"
  by (simp add: numeral_eq_Suc)

lemma upt4: "[0..<4] = [0, 1, 2, 3]" by (simp add: upt_rec)
lemma upt3: "[0..<3] = [0, 1, 2]" by (simp add: upt_rec)

lemma quantizeVec3_loop_length [simp]:
  "length (quantizeVec3_loop array mn multiplier i q) = length q"
  by (induction array mn multiplier i q rule: quantizeVec3_loop.induct)
     (subst quantizeVec3_loop.simps, simp)

lemma quantizeVec3_loop_nth:
  "length q = length array \<Longrightarrow> i mod 3 = 0 \<Longrightarrow> length array mod 3 = 0 \<Longrightarrow> k < length array \<Longrightarrow>
   quantizeVec3_loop array mn multiplier i q ! k =
     (if i \<le> k then quantize_component array mn multiplier (k - k mod 3) (k mod 3) else q ! k)"
proof (induction array mn multiplier i q rule: quantizeVec3_loop.induct)
  case (1 array mn multiplier i q)
  show ?case
  proof (cases "i < length array")
    case False
    then show ?thesis using "1.prems" by (subst quantizeVec3_loop.simps) simp
  next
    case True
    have i3: "i + 2 < length array" using True "1.prems" by presburger
    let ?q' = "q[i := quantize_component array mn multiplier i 0,
                i + 1 := quantize_component array mn multiplier i 1,
                i + 2 := quantize_component array mn multiplier i 2]"
    have IH: "quantizeVec3_loop array mn multiplier (i + 3) ?q' ! k =
       (if i + 3 \<le> k then quantize_component array mn multiplier (k - k mod 3) (k mod 3) else ?q' ! k)"
      using "1.IH"[OF True] "1.prems" by simp
    have unf: "quantizeVec3_loop array mn multiplier i q = quantizeVec3_loop array mn multiplier (i + 3) ?q'"
      using True by (subst quantizeVec3_loop.simps) simp
    consider "k < i" | "k = i" | "k = i + 1" | "k = i + 2" | "i + 3 \<le> k" by linarith
    then show ?thesis
    proof cases
      case 1 then show ?thesis using IH unf by simp
    next
      case 2
      then have "k mod 3 = 0" "k - k mod 3 = i" using "1.prems" by simp_all
      then show ?thesis using IH unf 2 i3 "1.prems" by simp
    next
      case 3
      then have "k mod 3 = 1" "k - k mod 3 = i" using "1.prems" by presburger+
      then show ?thesis using IH unf 3 i3 "1.prems" by simp
    next
      case 4
      then have "k mod 3 = 2" "k - k mod 3 = i" using "1.prems" by presburger+
      then show ?thesis using IH unf 4 i3 "1.prems" by simp
    next
      case 5 then show ?thesis using IH unf by simp
    qed
  qed
qed


lemma mod3_cases:
  "k < i + 3 \<Longrightarrow> k mod 3 = 0 \<Longrightarrow> i mod 3 = 0 \<Longrightarrow> k < i \<or> k = (i::nat)"
  "k < i + 3 \<Longrightarrow> k mod 3 = 1 \<Longrightarrow> i mod 3 = 0 \<Longrightarrow> k < i \<or> k = (i::nat) + 1"
  "k < i + 3 \<Longrightarrow> k mod 3 = 2 \<Longrightarrow> i mod 3 = 0 \<Longrightarrow> k < i \<or> k = (i::nat) + 2"
  "i < n \<Longrightarrow> n mod 3 = 0 \<Longrightarrow> i mod 3 = 0 \<Longrightarrow> (i::nat) + 2 < n"
  by presburger+

lemma js_min_Num [simp]: "js_min (Num a) (Num b) = Num (min a b)"
  by (simp add: js_min_def min_def)

lemma js_max_Num [simp]: "js_max (Num a) (Num b) = Num (max a b)"
  by (simp add: js_max_def max_def)

lemma lt3_cases: "(j::nat) < 3 \<Longrightarrow> j = 0 \<or> j = 1 \<or> j = 2"
  by linarith

lemma list3: "length xs = 3 \<Longrightarrow> xs = [xs ! 0, xs ! 1, xs ! 2]"
  by (auto simp: length_Suc_conv numeral_3_eq_3)

lemma concat_blocks_nth:
  "(\<forall>k<n. length (f k) = 3) \<Longrightarrow> m < n \<Longrightarrow> r < 3 \<Longrightarrow>
   concat (map f [0..<n]) ! (3 * m + r) = f m ! r"
proof (induction n)
  case 0
  then show ?case by simp
next
  case (Suc n)
  have len: "length (concat (map f [0..<n])) = 3 * n"
    using Suc.prems(1) by (induction n) simp_all
  show ?case
  proof (cases "m < n")
    case True
    then have "3 * m + r < 3 * n" using Suc.prems(3) by linarith
    then show ?thesis using Suc True len by (simp add: nth_append)
  next
    case False
    then have "m = n" using Suc.prems(2) by simp
    then show ?thesis using len Suc.prems(3) by (simp add: nth_append)
  qed
qed

lemma decompressPosition_length [simp]: "length (decompressPosition position m) = 3"
  by (simp add: decompressPosition_def)

lemma decompressPositions_nth:
  assumes "i < length ps" "length ps mod 3 = 0"
  shows "decompressPositions ps m ! i =
     decompressPosition [js_get ps (i - i mod 3), js_get ps (i - i mod 3 + 1), js_get ps (i - i mod 3 + 2)] m
       ! (i mod 3)"
proof -
  have i: "i = 3 * (i div 3) + i mod 3" by simp
  have d: "i div 3 < length ps div 3" using assms by (simp add: less_mult_imp_div_less mod_0_imp_dvd)
  have e: "3 * (i div 3) = i - i mod 3" by (simp add: minus_mod_eq_mult_div)
  have "decompressPositions ps m ! (3 * (i div 3) + i mod 3) =
     decompressPosition [js_get ps (3 * (i div 3)), js_get ps (3 * (i div 3) + 1), js_get ps (3 * (i div 3) + 2)] m
       ! (i mod 3)"
    unfolding decompressPositions_def
    by (rule concat_blocks_nth) (use d in simp_all)
  then show ?thesis using e by simp
qed

lemma decompressPosition_diag:
  "decompressPosition [Num q0, Num q1, Num q2]
      [Num s0, Num 0, Num 0, Num 0,  Num 0, Num s1, Num 0, Num 0,  Num 0, Num 0, Num s2, Num 0,
       Num a0, Num a1, Num a2, Num 1]
     = [Num (s0 * q0 + a0), Num (s1 * q1 + a1), Num (s2 * q2 + a2)]"
  by (simp add: decompressPosition_def upt3 js_get_def)

lemma decoded_component:
  assumes "i < length q" "length q mod 3 = 0"
  shows "decompressPositions (elems (Uint16Array q))
           (map Num [s0, 0, 0, 0,  0, s1, 0, 0,  0, 0, s2, 0,  a0, a1, a2, 1]) ! i
     = Num ([s0, s1, s2] ! (i mod 3) * real (unat (q ! i)) + [a0, a1, a2] ! (i mod 3))"
proof -
  define ps where "ps = elems (Uint16Array q)"
  define b where "b = i - i mod 3"
  have l: "length ps = length q" by (simp add: ps_def)
  have ib: "i = b + i mod 3" unfolding b_def using mod_less_eq_dividend[of i 3] by simp
  have b3: "b mod 3 = 0" unfolding b_def by (simp add: minus_mod_eq_mult_div)
  have "b < length q" using assms(1) ib by linarith
  then have b2: "b + 2 < length q" using assms(2) b3 by (rule mod3_cases(4))
  have g: "js_get ps b = Num (real (unat (q ! b)))"
    "js_get ps (b + 1) = Num (real (unat (q ! (b + 1))))"
    "js_get ps (b + 2) = Num (real (unat (q ! (b + 2))))"
    using b2 by (simp_all add: js_get_def ps_def)
  have n: "decompressPositions ps (map Num [s0, 0, 0, 0,  0, s1, 0, 0,  0, 0, s2, 0,  a0, a1, a2, 1]) ! i
      = [Num (s0 * real (unat (q ! b)) + a0), Num (s1 * real (unat (q ! (b + 1))) + a1),
         Num (s2 * real (unat (q ! (b + 2))) + a2)] ! (i mod 3)"
    using decompressPositions_nth[of i ps] assms l
    unfolding b_def[symmetric] g by (simp add: decompressPosition_diag)
  have "i mod 3 < 3" by simp
  then consider "i mod 3 = 0" | "i mod 3 = 1" | "i mod 3 = 2" by linarith
  then show ?thesis
  proof cases
    case 1
    then have "i = b" using ib by simp
    then show ?thesis using n 1 unfolding ps_def by simp
  next
    case 2
    then have "i = b + 1" using ib by simp
    then show ?thesis using n 2 unfolding ps_def by simp
  next
    case 3
    then have "i = b + 2" using ib by simp
    then show ?thesis using n 3 unfolding ps_def by simp
  qed
qed

lemma nth3_Num: "j < 3 \<Longrightarrow> [Num a0, Num a1, Num a2] ! j = Num ([a0, a1, a2] ! j)"
  by (auto dest!: lt3_cases)

lemma nth3_scale:
  "j < 3 \<Longrightarrow> [(b0 - a0) / 65535, (b1 - a1) / 65535, (b2 - a2) / 65535] ! j
     = ([b0, b1, b2] ! j - [a0, a1, a2] ! j) / (65535::real)"
  by (auto dest!: lt3_cases)

lemma nth3_diag:
  "j < 3 \<Longrightarrow>
   [Num s0, Num 0, Num 0, Num 0,  Num 0, Num s1, Num 0, Num 0,  Num 0, Num 0, Num s2, Num 0,
    Num a0, Num a1, Num a2, Num 1] ! (5 * j) = Num ([s0, s1, s2] ! j)"
  "j < 3 \<Longrightarrow>
   [Num s0, Num 0, Num 0, Num 0,  Num 0, Num s1, Num 0, Num 0,  Num 0, Num 0, Num s2, Num 0,
    Num a0, Num a1, Num a2, Num 1] ! (12 + j) = Num ([a0, a1, a2] ! j)"
  by (auto dest!: lt3_cases)

lemma js_min_PosInf [simp]: "js_min PosInf (Num a) = Num a"
  by (simp add: js_min_def)

lemma js_max_NegInf [simp]: "js_max NegInf (Num a) = Num a"
  by (simp add: js_max_def)

lemma is_float32_Num [simp]: "is_float32 (Num a) = (fround a = Num a)"
  by (simp add: is_float32_def)

lemma is_float32D: "is_float32 x \<Longrightarrow> \<exists>a. x = Num a \<and> fround a = Num a"
  by (cases x) (simp_all add: is_float32_def)

lemma fits_float32D: "fits_float32 x \<Longrightarrow> \<exists>a a'. x = Num a \<and> fround a = Num a'"
  by (cases x) (auto simp: fits_float32_def split: jsnum.splits)




text \<open>
  For any finite components that fit a 32-bit float the bounds are finite, and on an
  axis whose components are all the same number both bounds are its rounding.
\<close>

lemma fold_min_finite:
  assumes "\<forall>x\<in>set vs. fits_float32 x" and "m = PosInf \<or> is_float32 m" and "vs \<noteq> [] \<or> is_float32 m"
  shows "is_float32 (fold (\<lambda>v m. ToFloat32 (js_min m v)) vs m)"
  using assms
proof (induction vs arbitrary: m)
  case Nil
  then show ?case by simp
next
  case (Cons x vs)
  obtain w w' where w: "x = Num w" "fround w = Num w'" using Cons.prems(1) fits_float32D[of x] by auto
  have "is_float32 (ToFloat32 (js_min m x))"
    using Cons.prems(2) w fround_idem[OF w(2)] by (auto dest!: is_float32D simp: min_def fround_idem)
  then show ?case using Cons.IH[of "ToFloat32 (js_min m x)"] Cons.prems(1) by simp
qed

lemma fold_max_finite:
  assumes "\<forall>x\<in>set vs. fits_float32 x" and "m = NegInf \<or> is_float32 m" and "vs \<noteq> [] \<or> is_float32 m"
  shows "is_float32 (fold (\<lambda>v m. ToFloat32 (js_max m v)) vs m)"
  using assms
proof (induction vs arbitrary: m)
  case Nil
  then show ?case by simp
next
  case (Cons x vs)
  obtain w w' where w: "x = Num w" "fround w = Num w'" using Cons.prems(1) fits_float32D[of x] by auto
  have "is_float32 (ToFloat32 (js_max m x))"
    using Cons.prems(2) w fround_idem[OF w(2)] by (auto dest!: is_float32D simp: max_def fround_idem)
  then show ?case using Cons.IH[of "ToFloat32 (js_max m x)"] Cons.prems(1) by simp
qed

lemma fold_min_const:
  assumes "\<forall>x\<in>set vs. x = Num c" and "fround c = Num c'" and "vs \<noteq> [] \<or> m = Num c'"
    and "m = PosInf \<or> m = Num c'"
  shows "fold (\<lambda>v m. ToFloat32 (js_min m v)) vs m = Num c'"
  using assms
proof (induction vs arbitrary: m)
  case Nil
  then show ?case by simp
next
  case (Cons x vs)
  have "ToFloat32 (js_min m x) = Num c'"
    using Cons.prems fround_idem[OF Cons.prems(2)] by (auto simp: min_def)
  then show ?case using Cons.IH[of "ToFloat32 (js_min m x)"] Cons.prems by simp
qed

lemma fold_max_const:
  assumes "\<forall>x\<in>set vs. x = Num c" and "fround c = Num c'" and "vs \<noteq> [] \<or> m = Num c'"
    and "m = NegInf \<or> m = Num c'"
  shows "fold (\<lambda>v m. ToFloat32 (js_max m v)) vs m = Num c'"
  using assms
proof (induction vs arbitrary: m)
  case Nil
  then show ?case by simp
next
  case (Cons x vs)
  have "ToFloat32 (js_max m x) = Num c'"
    using Cons.prems fround_idem[OF Cons.prems(2)] by (auto simp: max_def)
  then show ?case using Cons.IH[of "ToFloat32 (js_max m x)"] Cons.prems by simp
qed

lemma axis_nonempty:
  assumes "0 < stride" "length array mod stride = 0" "i < length array"
  shows "axis array stride j \<noteq> []"
proof -
  have "0 < length array" using assms(3) by (cases array) simp_all
  then have "stride \<le> length array" using assms(2) by (auto simp: mod_0_imp_dvd intro: dvd_imp_le)
  then have "0 < length array div stride" using assms(1) by (simp add: div_greater_zero_iff)
  then show ?thesis by (simp add: axis_def)
qed

lemma getBounds_finite:
  assumes s: "0 < stride" and len: "length array mod stride = 0" and i: "i < length array"
    and fin: "\<forall>x\<in>set array. fits_float32 x" and j: "j < stride"
  shows "is_float32 (fst (getBounds array stride) ! j)" "is_float32 (snd (getBounds array stride) ! j)"
proof -
  have a: "\<forall>x\<in>set (axis array stride j). fits_float32 x"
    using fin axis_subset[OF s len j] by blast
  note ne = axis_nonempty[OF s len i, of j]
  show "is_float32 (fst (getBounds array stride) ! j)"
    unfolding getBounds_axis(1)[OF s len j] by (rule fold_min_finite[OF a]) (use ne in simp_all)
  show "is_float32 (snd (getBounds array stride) ! j)"
    unfolding getBounds_axis(2)[OF s len j] by (rule fold_max_finite[OF a]) (use ne in simp_all)
qed

lemma getBounds_finite3:
  assumes len: "length array mod 3 = 0" and i: "i < length array"
    and fin: "\<forall>x\<in>set array. fits_float32 x"
  obtains a0 a1 a2 b0 b1 b2 where
    "fst (getBounds array 3) = [Num a0, Num a1, Num a2]"
    "snd (getBounds array 3) = [Num b0, Num b1, Num b2]"
proof -
  have s: "(0::nat) < 3" by simp
  have j3: "(0::nat) < 3" "(1::nat) < 3" "(2::nat) < 3" by simp_all
  note f = getBounds_finite[OF s len i fin]
  obtain a0 b0 where c0: "fst (getBounds array 3) ! 0 = Num a0" "snd (getBounds array 3) ! 0 = Num b0"
    using f[OF j3(1)] by (auto dest!: is_float32D)
  obtain a1 b1 where c1: "fst (getBounds array 3) ! 1 = Num a1" "snd (getBounds array 3) ! 1 = Num b1"
    using f[OF j3(2)] by (auto dest!: is_float32D)
  obtain a2 b2 where c2: "fst (getBounds array 3) ! 2 = Num a2" "snd (getBounds array 3) ! 2 = Num b2"
    using f[OF j3(3)] by (auto dest!: is_float32D)
  have "fst (getBounds array 3) = [Num a0, Num a1, Num a2]"
    using list3[OF getBounds_axis(3)[OF s len j3(1)]] c0 c1 c2 by simp
  moreover have "snd (getBounds array 3) = [Num b0, Num b1, Num b2]"
    using list3[OF getBounds_axis(4)[OF s len j3(1)]] c0 c1 c2 by simp
  ultimately show thesis by (rule that)
qed

lemma multiplier_nth:
  "j < 3 \<Longrightarrow>
   js_get (elems (new_Float32Array
          [js_div (Num 65535) (js_sub (js_get mx 0) (js_get mn 0)),
           js_div (Num 65535) (js_sub (js_get mx 1) (js_get mn 1)),
           js_div (Num 65535) (js_sub (js_get mx 2) (js_get mn 2))])) j
     = ToFloat32 (js_div (Num 65535) (js_sub (js_get mx j) (js_get mn j)))"
  by (auto dest!: lt3_cases simp: js_get_def new_Float32Array_def)

lemma quantizeVec3_decode:
  "snd (quantizeVec3 array [Num a0, Num a1, Num a2] [Num b0, Num b1, Num b2]) =
     [Num ((b0 - a0) / 65535), Num 0, Num 0, Num 0,  Num 0, Num ((b1 - a1) / 65535), Num 0, Num 0,
      Num 0, Num 0, Num ((b2 - a2) / 65535), Num 0,  Num a0, Num a1, Num a2, Num 1]"
  by (simp add: quantizeVec3_def Let_def mulMat4_def upt4 translationMat4v_def scalingMat4v_def
      identityMat4_def js_get_def js_sub_def)

lemma quantizeVec3_nth:
  assumes "length array mod 3 = 0" "i < length array"
  shows "length (fst (quantizeVec3 array mn mx)) = length array"
    and "fst (quantizeVec3 array mn mx) ! i =
      ToUint16 (js_floor (js_mul (js_sub (js_get array i) (js_get mn (i mod 3)))
                 (ToFloat32 (js_div (Num 65535) (js_sub (js_get mx (i mod 3)) (js_get mn (i mod 3)))))))"
proof -
  show "length (fst (quantizeVec3 array mn mx)) = length array"
    by (simp add: quantizeVec3_def Let_def)
  have "i - i mod 3 + i mod 3 = i" using mod_less_eq_dividend[of i 3] by simp
  then show "fst (quantizeVec3 array mn mx) ! i =
      ToUint16 (js_floor (js_mul (js_sub (js_get array i) (js_get mn (i mod 3)))
                 (ToFloat32 (js_div (Num 65535) (js_sub (js_get mx (i mod 3)) (js_get mn (i mod 3)))))))"
    using assms
    by (simp add: quantizeVec3_def Let_def quantizeVec3_loop_nth quantize_component_def
          multiplier_nth[unfolded One_nat_def])
qed



lemma fround_exactI:
  assumes "- 126 \<le> e" "e \<le> 127" "e = - 126 \<or> 2 powi e \<le> \<bar>x\<bar>" "\<bar>x\<bar> < 2 powi (e + 1)"
    and "\<bar>x\<bar> / 2 powi (e - 23) = of_int k"
  shows "fround x = Num x"
proof -
  have e: "f32_exponent \<bar>x\<bar> = e" by (rule f32_exponentI) (use assms in auto)
  have "(2::real) powi (e + 1) \<le> 2 powi 128"
    using assms(2) by (intro power_int_increasing) auto
  then have "\<bar>x\<bar> < 2 ^ 128" using assms(4) by simp
  then show ?thesis using fround_exact[of x k] assms(5) e by simp
qed

lemma fround_values:
  "fround 1 = Num 1" "fround 2 = Num 2" "fround 4 = Num 4" "fround 7 = Num 7"
  "fround (1 / 2) = Num (1 / 2)" "fround (1023 / 256) = Num (1023 / 256)"
  "fround (1 / 2 ^ 140) = Num (1 / 2 ^ 140)"
  "fround (13421773 / 134217728) = Num (13421773 / 134217728)"
  using fround_exactI[of 0 1 "2 ^ 23"] fround_exactI[of 1 2 "2 ^ 23"] fround_exactI[of 2 4 "2 ^ 23"]
    fround_exactI[of 2 7 "7 * 2 ^ 21"] fround_exactI[of "- 1" "1 / 2" "2 ^ 23"]
    fround_exactI[of 1 "1023 / 256" "1023 * 2 ^ 14"] fround_exactI[of "- 126" "1 / 2 ^ 140" "2 ^ 9"]
    fround_exactI[of "- 4" "13421773 / 134217728" 13421773]
  by (simp_all add: power_int_minus_divide)

lemma fround_tenth: "fround (1 / 10) = Num (13421773 / 134217728)"
proof -
  have "round_half_even (\<bar>1 / 10\<bar> / 2 powi (- 4 - 23)) = 13421773"
    by (simp add: round_half_even_def power_int_minus_divide)
  from fround_eval[OF _ _ _ _ this] show ?thesis by (simp add: power_int_minus_divide)
qed


lemma getBounds3_eval:
  assumes "length array mod 3 = 0"
  shows "getBounds array 3 =
    ([fold (\<lambda>v m. ToFloat32 (js_min m v)) (axis array 3 0) PosInf,
      fold (\<lambda>v m. ToFloat32 (js_min m v)) (axis array 3 1) PosInf,
      fold (\<lambda>v m. ToFloat32 (js_min m v)) (axis array 3 2) PosInf],
     [fold (\<lambda>v m. ToFloat32 (js_max m v)) (axis array 3 0) NegInf,
      fold (\<lambda>v m. ToFloat32 (js_max m v)) (axis array 3 1) NegInf,
      fold (\<lambda>v m. ToFloat32 (js_max m v)) (axis array 3 2) NegInf])"
proof -
  have s: "(0::nat) < 3" and j3: "(0::nat) < 3" "(1::nat) < 3" "(2::nat) < 3" by simp_all
  have "fst (getBounds array 3) = [fold (\<lambda>v m. ToFloat32 (js_min m v)) (axis array 3 0) PosInf,
      fold (\<lambda>v m. ToFloat32 (js_min m v)) (axis array 3 1) PosInf,
      fold (\<lambda>v m. ToFloat32 (js_min m v)) (axis array 3 2) PosInf]"
    using list3[OF getBounds_axis(3)[OF s assms j3(1)]]
    by (simp add: getBounds_axis(1)[OF s assms j3(1)] getBounds_axis(1)[OF s assms j3(2), unfolded One_nat_def]
        getBounds_axis(1)[OF s assms j3(3)])
  moreover have "snd (getBounds array 3) = [fold (\<lambda>v m. ToFloat32 (js_max m v)) (axis array 3 0) NegInf,
      fold (\<lambda>v m. ToFloat32 (js_max m v)) (axis array 3 1) NegInf,
      fold (\<lambda>v m. ToFloat32 (js_max m v)) (axis array 3 2) NegInf]"
    using list3[OF getBounds_axis(4)[OF s assms j3(1)]]
    by (simp add: getBounds_axis(2)[OF s assms j3(1)] getBounds_axis(2)[OF s assms j3(2), unfolded One_nat_def]
        getBounds_axis(2)[OF s assms j3(3)])
  ultimately show ?thesis by (simp add: prod_eq_iff)
qed

lemma axis_triples:
  "axis [a0, a1, a2, b0, b1, b2] 3 0 = [a0, b0]"
  "axis [a0, a1, a2, b0, b1, b2] 3 (Suc 0) = [a1, b1]"
  "axis [a0, a1, a2, b0, b1, b2] 3 2 = [a2, b2]"
  "axis [a0, a1, a2, b0, b1, b2, c0, c1, c2] 3 0 = [a0, b0, c0]"
  "axis [a0, a1, a2, b0, b1, b2, c0, c1, c2] 3 (Suc 0) = [a1, b1, c1]"
  "axis [a0, a1, a2, b0, b1, b2, c0, c1, c2] 3 2 = [a2, b2, c2]"
  by (simp_all add: axis_def upt_rec)

lemma getBounds_examples:
  "getBounds skew_points 3 = ([Num 0, Num 0, Num 0], [Num 7, Num 7, Num 7])"
  "getBounds tenth_points 3 = ([Num (13421773 / 134217728), Num 0, Num 0], [Num 1, Num 1, Num 1])"
  "getBounds tiny_points 3 = ([Num 0, Num 0, Num 0], [Num (1 / 2 ^ 140), Num 1, Num 1])"
  "getBounds three_points 3 = ([Num 0, Num 0, Num 0], [Num 1, Num 2, Num 4])"
  "getBounds flat_triangle 3 = ([Num 0, Num 0, Num 0], [Num 1, Num 1, Num 0])"
  by (simp_all add: getBounds3_eval skew_points_def tenth_points_def tiny_points_def three_points_def
      flat_triangle_def axis_triples fround_values fround_values(7)[simplified] fround_tenth)

lemma decode_nth:
  assumes "length array mod 3 = 0" "i < length array"
  shows "decompressPositions
           (elems (Uint16Array (fst (quantizeVec3 array [Num a0, Num a1, Num a2] [Num b0, Num b1, Num b2]))))
           (snd (quantizeVec3 array [Num a0, Num a1, Num a2] [Num b0, Num b1, Num b2])) ! i
     = Num (([b0, b1, b2] ! (i mod 3) - [a0, a1, a2] ! (i mod 3)) / 65535
            * real (unat (fst (quantizeVec3 array [Num a0, Num a1, Num a2] [Num b0, Num b1, Num b2]) ! i))
            + [a0, a1, a2] ! (i mod 3))"
proof -
  define q where "q = fst (quantizeVec3 array [Num a0, Num a1, Num a2] [Num b0, Num b1, Num b2])"
  have lq: "length q = length array" unfolding q_def by (rule quantizeVec3_nth(1)[OF assms])
  have j: "i mod 3 < 3" by simp
  show ?thesis
    unfolding quantizeVec3_decode q_def[symmetric]
    using decoded_component[of i q] assms lq
    by (simp add: nth3_scale[OF j])
qed




lemma lt2_cases: "(j::nat) < 2 \<Longrightarrow> j = 0 \<or> j = 1"
  by linarith

lemma list2: "length xs = 2 \<Longrightarrow> xs = [xs ! 0, xs ! 1]"
  by (auto simp: length_Suc_conv numeral_2_eq_2)

lemma quantizeVec2_loop_length [simp]:
  "length (quantizeVec2_loop array mn multiplier i q) = length q"
  by (induction array mn multiplier i q rule: quantizeVec2_loop.induct)
     (subst quantizeVec2_loop.simps, simp)

lemma quantizeVec2_loop_nth:
  "length q = length array \<Longrightarrow> i mod 2 = 0 \<Longrightarrow> length array mod 2 = 0 \<Longrightarrow> k < length array \<Longrightarrow>
   quantizeVec2_loop array mn multiplier i q ! k =
     (if i \<le> k then quantize_component array mn multiplier (k - k mod 2) (k mod 2) else q ! k)"
proof (induction array mn multiplier i q rule: quantizeVec2_loop.induct)
  case (1 array mn multiplier i q)
  show ?case
  proof (cases "i < length array")
    case False
    then show ?thesis using "1.prems" by (subst quantizeVec2_loop.simps) simp
  next
    case True
    have i1: "i + 1 < length array" using True "1.prems" by presburger
    let ?q' = "q[i := quantize_component array mn multiplier i 0,
                i + 1 := quantize_component array mn multiplier i 1]"
    have IH: "quantizeVec2_loop array mn multiplier (i + 2) ?q' ! k =
       (if i + 2 \<le> k then quantize_component array mn multiplier (k - k mod 2) (k mod 2) else ?q' ! k)"
      using "1.IH"[OF True] "1.prems" by simp
    have unf: "quantizeVec2_loop array mn multiplier i q = quantizeVec2_loop array mn multiplier (i + 2) ?q'"
      using True by (subst quantizeVec2_loop.simps) simp
    consider "k < i" | "k = i" | "k = i + 1" | "i + 2 \<le> k" by linarith
    then show ?thesis
    proof cases
      case 1 then show ?thesis using IH unf by simp
    next
      case 2
      then have "k mod 2 = 0" "k - k mod 2 = i" using "1.prems" by simp_all
      then show ?thesis using IH unf 2 i1 "1.prems" by simp
    next
      case 3
      then have "k mod 2 = 1" "k - k mod 2 = i" using "1.prems" by presburger+
      then show ?thesis using IH unf 3 i1 "1.prems" by simp
    next
      case 4 then show ?thesis using IH unf by simp
    qed
  qed
qed

lemma multiplier2_nth:
  "j < 2 \<Longrightarrow>
   js_get (elems (new_Float32Array
          [js_div (Num 65535) (js_sub (js_get mx 0) (js_get mn 0)),
           js_div (Num 65535) (js_sub (js_get mx 1) (js_get mn 1))])) j
     = ToFloat32 (js_div (Num 65535) (js_sub (js_get mx j) (js_get mn j)))"
  by (auto dest!: lt2_cases simp: js_get_def new_Float32Array_def)

lemma quantizeVec2_nth:
  assumes "length array mod 2 = 0" "i < length array"
  shows "fst (quantizeVec2 array mn mx) ! i =
      ToUint16 (js_floor (js_mul (js_sub (js_get array i) (js_get mn (i mod 2)))
                 (ToFloat32 (js_div (Num 65535) (js_sub (js_get mx (i mod 2)) (js_get mn (i mod 2)))))))"
proof -
  have "i - i mod 2 + i mod 2 = i" using mod_less_eq_dividend[of i 2] by simp
  then show ?thesis
    using assms
    by (simp add: quantizeVec2_def Let_def quantizeVec2_loop_nth quantize_component_def
          multiplier2_nth[unfolded One_nat_def])
qed

lemma upt3': "[0..<3] = [0, Suc 0, 2]" by (simp add: upt_rec)

lemma quantizeVec2_decode:
  "snd (quantizeVec2 array [Num a0, Num a1] [Num b0, Num b1]) =
     [Num ((b0 - a0) / 65535), Num 0, Num 0,  Num 0, Num ((b1 - a1) / 65535), Num 0,
      Num a0, Num a1, Num 1]"
  by (simp add: quantizeVec2_def Let_def mulMat3_def upt3 translationMat3v_def scalingMat3v_def
      identityMat3_def js_get_def js_sub_def)

lemma nth2_Num: "j < 2 \<Longrightarrow> [Num a0, Num a1] ! j = Num ([a0, a1] ! j)"
  by (auto dest!: lt2_cases)

lemma nth2_diag:
  "j < 2 \<Longrightarrow>
   [Num s0, Num 0, Num 0,  Num 0, Num s1, Num 0,  Num a0, Num a1, Num 1] ! (4 * j) = Num ([s0, s1] ! j)"
  "j < 2 \<Longrightarrow>
   [Num s0, Num 0, Num 0,  Num 0, Num s1, Num 0,  Num a0, Num a1, Num 1] ! (6 + j) = Num ([a0, a1] ! j)"
  by (auto dest!: lt2_cases)

lemma nth2_scale:
  "j < 2 \<Longrightarrow> [(b0 - a0) / 65535, (b1 - a1) / 65535] ! j = ([b0, b1] ! j - [a0, a1] ! j) / (65535::real)"
  by (auto dest!: lt2_cases)

lemma getBounds_finite2:
  assumes len: "length array mod 2 = 0" and i: "i < length array"
    and fin: "\<forall>x\<in>set array. fits_float32 x"
  obtains a0 a1 b0 b1 where
    "fst (getBounds array 2) = [Num a0, Num a1]"
    "snd (getBounds array 2) = [Num b0, Num b1]"
proof -
  have s: "(0::nat) < 2" by simp
  have j2: "(0::nat) < 2" "(1::nat) < 2" by simp_all
  note f = getBounds_finite[OF s len i fin]
  obtain a0 b0 where c0: "fst (getBounds array 2) ! 0 = Num a0" "snd (getBounds array 2) ! 0 = Num b0"
    using f[OF j2(1)] by (auto dest!: is_float32D)
  obtain a1 b1 where c1: "fst (getBounds array 2) ! 1 = Num a1" "snd (getBounds array 2) ! 1 = Num b1"
    using f[OF j2(2)] by (auto dest!: is_float32D)
  have "fst (getBounds array 2) = [Num a0, Num a1]"
    using list2[OF getBounds_axis(3)[OF s len j2(1)]] c0 c1 by simp
  moreover have "snd (getBounds array 2) = [Num b0, Num b1]"
    using list2[OF getBounds_axis(4)[OF s len j2(1)]] c0 c1 by simp
  ultimately show thesis by (rule that)
qed

text \<open>
  On an axis whose components are all the same number both bounds are the rounding of
  that number, and a component times the infinite multiplier is stored as 0.
\<close>

lemma constant_axis_bounds:
  assumes s: "0 < stride" and ca: "constant_axis array stride i"
  obtains v c where "array ! i = Num v" "fround v = Num c"
    "fst (getBounds array stride) ! (i mod stride) = Num c"
    "snd (getBounds array stride) ! (i mod stride) = Num c"
proof -
  have len: "length array mod stride = 0" and i: "i < length array"
    and fits: "\<forall>x\<in>set array. fits_float32 x"
    and const: "\<forall>x\<in>set (axis array stride (i mod stride)). x = array ! i"
    using ca by (simp_all add: constant_axis_def list_all_iff)
  have j: "i mod stride < stride" using s by simp
  have "fits_float32 (array ! i)" using fits i by simp
  then obtain v c where v: "array ! i = Num v" "fround v = Num c" using fits_float32D by blast
  have const': "\<forall>x\<in>set (axis array stride (i mod stride)). x = Num v" using const v by simp
  note ne = axis_nonempty[OF s len i, of "i mod stride"]
  have "fst (getBounds array stride) ! (i mod stride) = Num c"
    unfolding getBounds_axis(1)[OF s len j] by (rule fold_min_const[OF const' v(2)]) (use ne in simp_all)
  moreover have "snd (getBounds array stride) ! (i mod stride) = Num c"
    unfolding getBounds_axis(2)[OF s len j] by (rule fold_max_const[OF const' v(2)]) (use ne in simp_all)
  ultimately show thesis using that v by blast
qed

lemma quantized_by_infinity:
  "ToUint16 (js_floor (js_mul (js_sub (Num v) (Num c)) (ToFloat32 (js_div (Num 65535) (js_sub (Num c) (Num c))))))
     = 0"
  by (simp add: js_sub_def ToUint16_def)

text \<open>
  C6, as stated: a degenerate axis is handled without division by zero, with a scale
  factor of 1. It fails for the triangle in the plane \<open>z = 0\<close>: on the third axis
  \<open>max - min\<close> is 0, the multiplier \<open>65535 / (max - min)\<close> is \<open>Infinity\<close>, and the scale
  entry of the decode matrix is 0.
\<close>

theorem degenerate_axis_divides_by_zero:
  "constant_axis flat_triangle 3 2
   \<and> js_sub (snd (getBounds flat_triangle 3) ! 2) (fst (getBounds flat_triangle 3) ! 2) = Num 0
   \<and> js_div (Num 65535) (js_sub (snd (getBounds flat_triangle 3) ! 2) (fst (getBounds flat_triangle 3) ! 2))
       = PosInf
   \<and> snd (quantizeVec3 flat_triangle (fst (getBounds flat_triangle 3)) (snd (getBounds flat_triangle 3))) ! 10
       = Num 0"
proof -
  have "constant_axis flat_triangle 3 2"
    by (simp add: constant_axis_def flat_triangle_def axis_triples fits_float32_def fround_values)
  then show ?thesis
    by (simp add: getBounds_examples quantizeVec3_decode js_sub_def)
qed

text \<open>
  C6, amended. On an axis whose components are all the same finite number (of an array
  of finite numbers that fit a 32-bit float), \<open>quantizeVec3\<close> and \<open>quantizeVec2\<close> do
  divide by zero: both bounds are the 32-bit rounding \<open>c\<close> of that number, the
  multiplier \<open>65535 / (max - min)\<close> is \<open>Infinity\<close> and the scale factor is 0, not 1. A
  component of the axis times the multiplier is NaN or an infinity, which the
  \<open>Uint16Array\<close> stores as 0; the decode matrix has the scale entry 0 and the
  translation entry \<open>c\<close>. So the quantized values and the matrix entries of the axis are
  finite, and a decoded position has \<open>c\<close> on that axis.
\<close>

theorem degenerate_axis_quantizes_to_zero:
  "(constant_axis array 3 i \<longrightarrow>
      (\<exists>c. ToFloat32 (array ! i) = Num c
        \<and> fst (getBounds array 3) ! (i mod 3) = Num c \<and> snd (getBounds array 3) ! (i mod 3) = Num c
        \<and> js_div (Num 65535) (js_sub (snd (getBounds array 3) ! (i mod 3)) (fst (getBounds array 3) ! (i mod 3)))
            = PosInf
        \<and> fst (quantizeVec3 array (fst (getBounds array 3)) (snd (getBounds array 3))) ! i = 0
        \<and> snd (quantizeVec3 array (fst (getBounds array 3)) (snd (getBounds array 3))) ! (5 * (i mod 3)) = Num 0
        \<and> snd (quantizeVec3 array (fst (getBounds array 3)) (snd (getBounds array 3))) ! (12 + i mod 3) = Num c
        \<and> decompressPositions
            (elems (Uint16Array (fst (quantizeVec3 array (fst (getBounds array 3)) (snd (getBounds array 3))))))
            (snd (quantizeVec3 array (fst (getBounds array 3)) (snd (getBounds array 3)))) ! i = Num c))
   \<and> (constant_axis uvs 2 k \<longrightarrow>
      (\<exists>c. ToFloat32 (uvs ! k) = Num c
        \<and> fst (getBounds uvs 2) ! (k mod 2) = Num c \<and> snd (getBounds uvs 2) ! (k mod 2) = Num c
        \<and> js_div (Num 65535) (js_sub (snd (getBounds uvs 2) ! (k mod 2)) (fst (getBounds uvs 2) ! (k mod 2)))
            = PosInf
        \<and> fst (quantizeVec2 uvs (fst (getBounds uvs 2)) (snd (getBounds uvs 2))) ! k = 0
        \<and> snd (quantizeVec2 uvs (fst (getBounds uvs 2)) (snd (getBounds uvs 2))) ! (4 * (k mod 2)) = Num 0
        \<and> snd (quantizeVec2 uvs (fst (getBounds uvs 2)) (snd (getBounds uvs 2))) ! (6 + k mod 2) = Num c))"
proof (intro conjI impI)
  assume ca: "constant_axis array 3 i"
  have s: "(0::nat) < 3" and j: "i mod 3 < 3" by simp_all
  have len: "length array mod 3 = 0" and i: "i < length array"
    and fits: "\<forall>x\<in>set array. fits_float32 x"
    using ca by (simp_all add: constant_axis_def list_all_iff)
  from constant_axis_bounds[OF s ca]
  obtain v c where v: "array ! i = Num v" "fround v = Num c"
    and gl: "fst (getBounds array 3) ! (i mod 3) = Num c"
    and gh: "snd (getBounds array 3) ! (i mod 3) = Num c"
    by blast
  from getBounds_finite3[OF len i fits]
  obtain a0 a1 a2 b0 b1 b2 where
    mn: "fst (getBounds array 3) = [Num a0, Num a1, Num a2]" and
    mx: "snd (getBounds array 3) = [Num b0, Num b1, Num b2]"
    by blast
  have lo_eq: "[a0, a1, a2] ! (i mod 3) = c" and hi_eq: "[b0, b1, b2] ! (i mod 3) = c"
    using gl gh mn mx nth3_Num[OF j] by simp_all
  have g: "js_get [Num a0, Num a1, Num a2] (i mod 3) = Num c"
    "js_get [Num b0, Num b1, Num b2] (i mod 3) = Num c" "js_get array i = Num v"
    using j i v(1) lo_eq hi_eq by (simp_all add: js_get_def nth3_Num)
  have c0: "ToFloat32 (array ! i) = Num c" using v by simp
  have c1: "js_div (Num 65535) (js_sub (snd (getBounds array 3) ! (i mod 3)) (fst (getBounds array 3) ! (i mod 3)))
            = PosInf"
    unfolding gl gh by (simp add: js_sub_def)
  have c2: "fst (quantizeVec3 array [Num a0, Num a1, Num a2] [Num b0, Num b1, Num b2]) ! i = 0"
    unfolding quantizeVec3_nth(2)[OF len i] g by (rule quantized_by_infinity)
  have c3: "snd (quantizeVec3 array [Num a0, Num a1, Num a2] [Num b0, Num b1, Num b2]) ! (5 * (i mod 3)) = Num 0"
    unfolding quantizeVec3_decode nth3_diag(1)[OF j] nth3_scale[OF j] using lo_eq hi_eq by simp
  have c4: "snd (quantizeVec3 array [Num a0, Num a1, Num a2] [Num b0, Num b1, Num b2]) ! (12 + i mod 3) = Num c"
    unfolding quantizeVec3_decode nth3_diag(2)[OF j] using lo_eq by simp
  have c5: "decompressPositions
        (elems (Uint16Array (fst (quantizeVec3 array [Num a0, Num a1, Num a2] [Num b0, Num b1, Num b2]))))
        (snd (quantizeVec3 array [Num a0, Num a1, Num a2] [Num b0, Num b1, Num b2])) ! i = Num c"
    unfolding decode_nth[OF len i] c2 using lo_eq hi_eq by simp
  show "\<exists>c. ToFloat32 (array ! i) = Num c
        \<and> fst (getBounds array 3) ! (i mod 3) = Num c \<and> snd (getBounds array 3) ! (i mod 3) = Num c
        \<and> js_div (Num 65535) (js_sub (snd (getBounds array 3) ! (i mod 3)) (fst (getBounds array 3) ! (i mod 3)))
            = PosInf
        \<and> fst (quantizeVec3 array (fst (getBounds array 3)) (snd (getBounds array 3))) ! i = 0
        \<and> snd (quantizeVec3 array (fst (getBounds array 3)) (snd (getBounds array 3))) ! (5 * (i mod 3)) = Num 0
        \<and> snd (quantizeVec3 array (fst (getBounds array 3)) (snd (getBounds array 3))) ! (12 + i mod 3) = Num c
        \<and> decompressPositions
            (elems (Uint16Array (fst (quantizeVec3 array (fst (getBounds array 3)) (snd (getBounds array 3))))))
            (snd (quantizeVec3 array (fst (getBounds array 3)) (snd (getBounds array 3)))) ! i = Num c"
    using c0 gl gh c1 c2 c3 c4 c5 unfolding mn mx by blast
next
  assume ca: "constant_axis uvs 2 k"
  have s: "(0::nat) < 2" and j: "k mod 2 < 2" by simp_all
  have len: "length uvs mod 2 = 0" and k: "k < length uvs"
    and fits: "\<forall>x\<in>set uvs. fits_float32 x"
    using ca by (simp_all add: constant_axis_def list_all_iff)
  from constant_axis_bounds[OF s ca]
  obtain v c where v: "uvs ! k = Num v" "fround v = Num c"
    and gl: "fst (getBounds uvs 2) ! (k mod 2) = Num c"
    and gh: "snd (getBounds uvs 2) ! (k mod 2) = Num c"
    by blast
  from getBounds_finite2[OF len k fits]
  obtain a0 a1 b0 b1 where
    mn: "fst (getBounds uvs 2) = [Num a0, Num a1]" and
    mx: "snd (getBounds uvs 2) = [Num b0, Num b1]"
    by blast
  have lo_eq: "[a0, a1] ! (k mod 2) = c" and hi_eq: "[b0, b1] ! (k mod 2) = c"
    using gl gh mn mx nth2_Num[OF j] by simp_all
  have g: "js_get [Num a0, Num a1] (k mod 2) = Num c"
    "js_get [Num b0, Num b1] (k mod 2) = Num c" "js_get uvs k = Num v"
    using j k v(1) lo_eq hi_eq by (simp_all add: js_get_def nth2_Num)
  have c0: "ToFloat32 (uvs ! k) = Num c" using v by simp
  have c1: "js_div (Num 65535) (js_sub (snd (getBounds uvs 2) ! (k mod 2)) (fst (getBounds uvs 2) ! (k mod 2)))
            = PosInf"
    unfolding gl gh by (simp add: js_sub_def)
  have c2: "fst (quantizeVec2 uvs [Num a0, Num a1] [Num b0, Num b1]) ! k = 0"
    unfolding quantizeVec2_nth[OF len k] g by (rule quantized_by_infinity)
  have c3: "snd (quantizeVec2 uvs [Num a0, Num a1] [Num b0, Num b1]) ! (4 * (k mod 2)) = Num 0"
    unfolding quantizeVec2_decode nth2_diag(1)[OF j] nth2_scale[OF j] using lo_eq hi_eq by simp
  have c4: "snd (quantizeVec2 uvs [Num a0, Num a1] [Num b0, Num b1]) ! (6 + k mod 2) = Num c"
    unfolding quantizeVec2_decode nth2_diag(2)[OF j] using lo_eq by simp
  show "\<exists>c. ToFloat32 (uvs ! k) = Num c
        \<and> fst (getBounds uvs 2) ! (k mod 2) = Num c \<and> snd (getBounds uvs 2) ! (k mod 2) = Num c
        \<and> js_div (Num 65535) (js_sub (snd (getBounds uvs 2) ! (k mod 2)) (fst (getBounds uvs 2) ! (k mod 2)))
            = PosInf
        \<and> fst (quantizeVec2 uvs (fst (getBounds uvs 2)) (snd (getBounds uvs 2))) ! k = 0
        \<and> snd (quantizeVec2 uvs (fst (getBounds uvs 2)) (snd (getBounds uvs 2))) ! (4 * (k mod 2)) = Num 0
        \<and> snd (quantizeVec2 uvs (fst (getBounds uvs 2)) (snd (getBounds uvs 2))) ! (6 + k mod 2) = Num c"
    using c0 gl gh c1 c2 c3 c4 unfolding mn mx by blast
qed

text \<open>
  The amended C6 at the last component of the triangle in the plane \<open>z = 0\<close> and at the
  last component of two UV pairs with the second coordinate \<open>1 / 10\<close>.
\<close>

theorem degenerate_axis_quantizes_to_zero_witness:
  "(\<exists>c. ToFloat32 (flat_triangle ! 5) = Num c
        \<and> fst (getBounds flat_triangle 3) ! (5 mod 3) = Num c \<and> snd (getBounds flat_triangle 3) ! (5 mod 3) = Num c
        \<and> js_div (Num 65535) (js_sub (snd (getBounds flat_triangle 3) ! (5 mod 3))
                                     (fst (getBounds flat_triangle 3) ! (5 mod 3)))
            = PosInf
        \<and> fst (quantizeVec3 flat_triangle (fst (getBounds flat_triangle 3)) (snd (getBounds flat_triangle 3))) ! 5 = 0
        \<and> snd (quantizeVec3 flat_triangle (fst (getBounds flat_triangle 3)) (snd (getBounds flat_triangle 3)))
            ! (5 * (5 mod 3)) = Num 0
        \<and> snd (quantizeVec3 flat_triangle (fst (getBounds flat_triangle 3)) (snd (getBounds flat_triangle 3)))
            ! (12 + 5 mod 3) = Num c
        \<and> decompressPositions
            (elems (Uint16Array (fst (quantizeVec3 flat_triangle (fst (getBounds flat_triangle 3))
                                        (snd (getBounds flat_triangle 3))))))
            (snd (quantizeVec3 flat_triangle (fst (getBounds flat_triangle 3)) (snd (getBounds flat_triangle 3))))
            ! 5 = Num c)
   \<and> (\<exists>c. ToFloat32 (flat_uvs ! 3) = Num c
        \<and> fst (getBounds flat_uvs 2) ! (3 mod 2) = Num c \<and> snd (getBounds flat_uvs 2) ! (3 mod 2) = Num c
        \<and> js_div (Num 65535) (js_sub (snd (getBounds flat_uvs 2) ! (3 mod 2)) (fst (getBounds flat_uvs 2) ! (3 mod 2)))
            = PosInf
        \<and> fst (quantizeVec2 flat_uvs (fst (getBounds flat_uvs 2)) (snd (getBounds flat_uvs 2))) ! 3 = 0
        \<and> snd (quantizeVec2 flat_uvs (fst (getBounds flat_uvs 2)) (snd (getBounds flat_uvs 2))) ! (4 * (3 mod 2))
            = Num 0
        \<and> snd (quantizeVec2 flat_uvs (fst (getBounds flat_uvs 2)) (snd (getBounds flat_uvs 2))) ! (6 + 3 mod 2)
            = Num c)"
proof -
  have a: "constant_axis flat_triangle 3 5"
    by (simp add: constant_axis_def flat_triangle_def axis_triples fits_float32_def fround_values)
  have "axis flat_uvs 2 (3 mod 2) = [Num (1 / 10), Num (1 / 10)]"
    by (simp add: axis_def flat_uvs_def upt_rec)
  then have b: "constant_axis flat_uvs 2 3"
    by (simp add: constant_axis_def flat_uvs_def fits_float32_def fround_values fround_tenth)
  show ?thesis
    using degenerate_axis_quantizes_to_zero[of flat_triangle 5 flat_uvs 3] a b by blast
qed

end
